theory Spec2Isabelle
  imports Complex_Main
begin

section \<open>Python values used by the gateway\<close>

text \<open>
  Strings are sequences of code points below 256, the Latin-1 range to which an HTTP
  header value decodes. \<open>lower\<close> is \<^verbatim>\<open>str.lower()\<close> on that range: the letters A to Z
  and the accented capitals 0xC0 to 0xDE (0xD7, the multiplication sign, apart) move
  up by 0x20. \<open>isspace\<close> is \<^verbatim>\<open>str.isspace()\<close> of one character on that range: the
  ASCII blanks and separators, the next-line control 0x85 and the no-break space 0xA0.
  \<open>strip\<close> is \<^verbatim>\<open>str.strip()\<close> with no argument, \<open>split_on\<close> is \<^verbatim>\<open>str.split(sep)\<close> with
  a one-character separator and \<open>split_ws\<close> is \<^verbatim>\<open>str.split()\<close> with no argument.
\<close>

definition lower_char :: "char \<Rightarrow> char" where
  "lower_char c =
     (case map_of
             (zip (''ABCDEFGHIJKLMNOPQRSTUVWXYZ'' @
               [CHR 0xC0, CHR 0xC1, CHR 0xC2, CHR 0xC3, CHR 0xC4, CHR 0xC5, CHR 0xC6, CHR 0xC7,
                CHR 0xC8, CHR 0xC9, CHR 0xCA, CHR 0xCB, CHR 0xCC, CHR 0xCD, CHR 0xCE, CHR 0xCF,
                CHR 0xD0, CHR 0xD1, CHR 0xD2, CHR 0xD3, CHR 0xD4, CHR 0xD5, CHR 0xD6, CHR 0xD8,
                CHR 0xD9, CHR 0xDA, CHR 0xDB, CHR 0xDC, CHR 0xDD, CHR 0xDE])
                  (''abcdefghijklmnopqrstuvwxyz'' @
               [CHR 0xE0, CHR 0xE1, CHR 0xE2, CHR 0xE3, CHR 0xE4, CHR 0xE5, CHR 0xE6, CHR 0xE7,
                CHR 0xE8, CHR 0xE9, CHR 0xEA, CHR 0xEB, CHR 0xEC, CHR 0xED, CHR 0xEE, CHR 0xEF,
                CHR 0xF0, CHR 0xF1, CHR 0xF2, CHR 0xF3, CHR 0xF4, CHR 0xF5, CHR 0xF6, CHR 0xF8,
                CHR 0xF9, CHR 0xFA, CHR 0xFB, CHR 0xFC, CHR 0xFD, CHR 0xFE])) c of
        Some d \<Rightarrow> d
      | None \<Rightarrow> c)"

definition lower :: "string \<Rightarrow> string" where
  "lower s = map lower_char s"

definition isspace :: "char \<Rightarrow> bool" where
  "isspace c = (c \<in> set [CHR '' '', CHR 0x09, CHR 0x0A, CHR 0x0B, CHR 0x0C, CHR 0x0D,
                           CHR 0x1C, CHR 0x1D, CHR 0x1E, CHR 0x1F, CHR 0x85, CHR 0xA0])"

definition strip :: "string \<Rightarrow> string" where
  "strip s = rev (dropWhile isspace (rev (dropWhile isspace s)))"

fun split_on :: "char \<Rightarrow> string \<Rightarrow> string list" where
  "split_on sep [] = [[]]"
| "split_on sep (c # cs) =
     (if c = sep then [] # split_on sep cs
      else (case split_on sep cs of
              [] \<Rightarrow> [[c]]
            | w # ws \<Rightarrow> (c # w) # ws))"

fun split_ws_acc :: "string \<Rightarrow> string \<Rightarrow> string list" where
  "split_ws_acc cur [] = (if cur = [] then [] else [rev cur])"
| "split_ws_acc cur (c # cs) =
     (if isspace c then (if cur = [] then split_ws_acc [] cs else rev cur # split_ws_acc [] cs)
      else split_ws_acc (c # cur) cs)"

definition split_ws :: "string \<Rightarrow> string list" where
  "split_ws s = split_ws_acc [] s"

text \<open>
  JSON values as Python sees them after parsing (numbers restricted to integers), and
  Python's truth value of such a value.
\<close>

datatype json =
    JNull
  | JBool bool
  | JNum int
  | JStr string
  | JArr "json list"
  | JObj "(string \<times> json) list"

fun truthy :: "json \<Rightarrow> bool" where
  "truthy JNull = False"
| "truthy (JBool b) = b"
| "truthy (JNum n) = (n \<noteq> 0)"
| "truthy (JStr s) = (s \<noteq> [])"
| "truthy (JArr xs) = (xs \<noteq> [])"
| "truthy (JObj kvs) = (kvs \<noteq> [])"

text \<open>The exceptions that travel through the gateway.\<close>

datatype pyexn =
    HTTPError string
  | RetryError pyexn
  | CircuitBreakerError
  | AttributeError
  | JSONDecodeError
  | OtherError string

fun is_httpx_error :: "pyexn \<Rightarrow> bool" where
  "is_httpx_error (HTTPError m) = True"
| "is_httpx_error e = False"

section \<open>rbac/engine.py\<close>

record permission =
  resource :: string
  actions :: "string list"

record role =
  name :: string
  description :: string
  permissions :: "permission list"

record rbac_policy =
  roles :: "role list"

text \<open>
  \<^verbatim>\<open>_load_policy\<close> opens the file, parses it with \<^verbatim>\<open>yaml.safe_load\<close> and validates
  the data with \<^verbatim>\<open>RBACPolicy(**policy_data)\<close>, all inside one \<^verbatim>\<open>try\<close>; any exception
  gives \<^verbatim>\<open>RBACPolicy(roles=[])\<close>. The three stages are parameters that return \<open>None\<close>
  where the stage raises.
\<close>

record 'y policy_io =
  open_read :: "string \<Rightarrow> string option"
  yaml_safe_load :: "string \<Rightarrow> 'y option"
  validate_policy :: "'y \<Rightarrow> rbac_policy option"

definition load_policy :: "'y policy_io \<Rightarrow> string \<Rightarrow> rbac_policy" where
  "load_policy io policy_file =
     (case open_read io policy_file of
        None \<Rightarrow> \<lparr>roles = []\<rparr>
      | Some txt \<Rightarrow>
          (case yaml_safe_load io txt of
             None \<Rightarrow> \<lparr>roles = []\<rparr>
           | Some policy_data \<Rightarrow>
               (case validate_policy io policy_data of
                  None \<Rightarrow> \<lparr>roles = []\<rparr>
                | Some p \<Rightarrow> p)))"

text \<open>
  \<^verbatim>\<open>self._role_map = {role.name: role for role in self.policy.roles}\<close>: a later role
  of the same name replaces an earlier one.
\<close>

fun role_map_of :: "role list \<Rightarrow> (string \<rightharpoonup> role) \<Rightarrow> (string \<rightharpoonup> role)" where
  "role_map_of [] m = m"
| "role_map_of (r # rs) m = role_map_of rs (m(name r \<mapsto> r))"

record rbac_engine =
  policy :: rbac_policy
  role_map :: "string \<rightharpoonup> role"

definition mk_rbac_engine :: "rbac_policy \<Rightarrow> rbac_engine" where
  "mk_rbac_engine p = \<lparr>policy = p, role_map = role_map_of (roles p) Map.empty\<rparr>"

definition init_rbac_engine :: "'y policy_io \<Rightarrow> string \<Rightarrow> rbac_engine" where
  "init_rbac_engine io policy_file = mk_rbac_engine (load_policy io policy_file)"

fun permissions_grant :: "permission list \<Rightarrow> string \<Rightarrow> string \<Rightarrow> bool" where
  "permissions_grant [] res act = False"
| "permissions_grant (p # ps) res act =
     (if resource p = res \<and> act \<in> set (actions p) then True
      else permissions_grant ps res act)"

fun check_permission :: "rbac_engine \<Rightarrow> string list \<Rightarrow> string \<Rightarrow> string \<Rightarrow> bool" where
  "check_permission eng [] res act = False"
| "check_permission eng (role_name # rest) res act =
     (case role_map eng role_name of
        None \<Rightarrow> check_permission eng rest res act
      | Some r \<Rightarrow>
          (if permissions_grant (permissions r) res act then True
           else check_permission eng rest res act))"

text \<open>
  \<^verbatim>\<open>get_accessible_resources\<close> collects the resources in a Python set and returns
  \<^verbatim>\<open>list(resources)\<close>; the model keeps each resource once, in first-seen order.
\<close>

fun add_resources :: "permission list \<Rightarrow> string list \<Rightarrow> string list" where
  "add_resources [] acc = acc"
| "add_resources (p # ps) acc =
     add_resources ps (if resource p \<in> set acc then acc else acc @ [resource p])"

fun accessible_from :: "rbac_engine \<Rightarrow> string list \<Rightarrow> string list \<Rightarrow> string list" where
  "accessible_from eng [] acc = acc"
| "accessible_from eng (role_name # rest) acc =
     (case role_map eng role_name of
        None \<Rightarrow> accessible_from eng rest acc
      | Some r \<Rightarrow> accessible_from eng rest (add_resources (permissions r) acc))"

definition get_accessible_resources :: "rbac_engine \<Rightarrow> string list \<Rightarrow> string list" where
  "get_accessible_resources eng rs = accessible_from eng rs []"

definition map_department_to_server :: "string \<Rightarrow> string option" where
  "map_department_to_server department =
     map_of [(''finance'', ''mcp-finance-server''),
             (''hr'', ''mcp-hr-server''),
             (''legal'', ''mcp-legal-server'')] (lower department)"

section \<open>config.py and models.py\<close>

record settings =
  rbac_enabled :: bool
  department_isolation :: bool
  application_service_url :: string
  mcp_finance_url :: string
  mcp_hr_url :: string
  mcp_legal_url :: string
  service_token :: "string option"

text \<open>\<^verbatim>\<open>AuditLog\<close> without its timestamp, which is the wall clock at creation.\<close>

record audit_log =
  audit_user_id :: "string option"
  audit_username :: "string option"
  audit_department :: "string option"
  audit_method :: string
  audit_path :: string
  audit_status_code :: nat
  audit_error :: "string option"
  audit_client_ip :: "string option"

record mcp_request =
  jsonrpc :: string
  req_id :: string
  mcp_method :: string
  params :: "(string \<times> json) list option"

text \<open>What the handlers read of FastAPI's \<^verbatim>\<open>Request\<close>.\<close>

record request =
  http_method :: string
  url_path :: string
  client_host :: "string option"
  headers :: "(string \<times> string) list"
  body :: string

text \<open>
  An \<^verbatim>\<open>httpx.Response\<close>: its status code and its body as \<^verbatim>\<open>response.json()\<close> reads
  it, \<open>None\<close> where the body is not JSON and \<^verbatim>\<open>json()\<close> raises.
\<close>

record http_response =
  status_code :: nat
  json_body :: "json option"

text \<open>
  What a handler hands back to FastAPI: a \<^verbatim>\<open>JSONResponse\<close>, a raised
  \<^verbatim>\<open>HTTPException\<close>, or any other exception, which FastAPI answers with status 500.
\<close>

datatype http_result =
    JSONResponse json nat
  | HTTPException nat string
  | Uncaught pyexn

fun result_status :: "http_result \<Rightarrow> nat" where
  "result_status (JSONResponse content c) = c"
| "result_status (HTTPException c detail) = c"
| "result_status (Uncaught e) = 500"

section \<open>Outbound calls, retry and circuit breaker\<close>

text \<open>
  One outbound HTTP attempt either returns a response (of any status) or raises.
  The environment of a handler run gives the outcome of the \<open>n\<close>-th outbound attempt
  of the process, the key set that the identity provider would return (\<open>None\<close> where
  the fetch raises), and two readings of the monotonic clock in seconds: \<open>now\<close> when a
  circuit breaker is consulted and \<open>settled\<close> when the outcome of the call is recorded.

  The decorators \<^verbatim>\<open>@retry\<close> and \<^verbatim>\<open>@circuit\<close> come from the third-party packages
  \<^verbatim>\<open>tenacity\<close> and \<^verbatim>\<open>circuitbreaker\<close>; they are modelled as those packages document
  them, with the arguments the source passes (3 attempts; threshold 5, recovery 60 s).
\<close>

datatype attempt = Resp http_response | Raises pyexn

record jwk =
  jwk_kid :: "string option"
  jwk_material :: string

record env =
  net :: "nat \<Rightarrow> attempt"
  jwks_response :: "jwk list option"
  now :: real
  settled :: real

text \<open>
  The \<^verbatim>\<open>circuitbreaker\<close> package: one breaker per decorated function, with its stored
  state, failure counter and the time it opened.
\<close>

record breaker =
  is_open_state :: bool
  failure_count :: nat
  opened_at :: real

text \<open>
  The process state: the cached key set and the number of fetches made, the breakers of
  \<^verbatim>\<open>forward_to_mcp_server\<close> and \<^verbatim>\<open>forward_to_application\<close>, the URLs of all outbound
  forwarding attempts so far, and the audit entries logged so far.
\<close>

record gw_state =
  jwks_cache :: "jwk list option"
  jwks_fetches :: nat
  mcp_breaker :: breaker
  app_breaker :: breaker
  outbound :: "string list"
  audit_trail :: "audit_log list"

text \<open>
  \<^verbatim>\<open>@retry(stop=stop_after_attempt(k), wait=...)\<close> of \<^verbatim>\<open>tenacity\<close>, with its defaults:
  every exception is retried, and when the stop condition holds after a failed attempt
  a \<^verbatim>\<open>RetryError\<close> wrapping the last exception is raised (\<^verbatim>\<open>reraise\<close> is not set). A
  returned response of any status ends the call. The argument is the number of attempts
  left after the one being made; the waits between attempts are not modelled.
\<close>

fun retrying :: "nat \<Rightarrow> (nat \<Rightarrow> attempt) \<Rightarrow> string \<Rightarrow> string list
    \<Rightarrow> (pyexn + http_response) \<times> string list" where
  "retrying 0 nt url sent =
     (case nt (length sent) of
        Resp r \<Rightarrow> (Inr r, sent @ [url])
      | Raises e \<Rightarrow> (Inl (RetryError e), sent @ [url]))"
| "retrying (Suc n) nt url sent =
     (case nt (length sent) of
        Resp r \<Rightarrow> (Inr r, sent @ [url])
      | Raises e \<Rightarrow> retrying n nt url (sent @ [url]))"

definition stop_after_attempt :: "nat \<Rightarrow> (nat \<Rightarrow> attempt) \<Rightarrow> string \<Rightarrow> string list
    \<Rightarrow> (pyexn + http_response) \<times> string list" where
  "stop_after_attempt k = retrying (k - 1)"

text \<open>
  \<^verbatim>\<open>@circuit(failure_threshold, recovery_timeout)\<close>: the breaker counts as opened while
  its stored state is open and the recovery time has not run out; then the call raises
  \<^verbatim>\<open>CircuitBreakerError\<close> and the wrapped function is not called. Otherwise the wrapped
  function runs; any exception counts as a failure, a return resets the breaker.
\<close>

definition breaker_opened :: "real \<Rightarrow> breaker \<Rightarrow> real \<Rightarrow> bool" where
  "breaker_opened recovery_timeout b t =
     (is_open_state b \<and> 0 < (opened_at b + recovery_timeout) - t)"

definition call_failed :: "nat \<Rightarrow> real \<Rightarrow> breaker \<Rightarrow> breaker" where
  "call_failed failure_threshold t b =
     (let n = failure_count b + 1
      in if failure_threshold \<le> n
         then b\<lparr>failure_count := n, is_open_state := True, opened_at := t\<rparr>
         else b\<lparr>failure_count := n\<rparr>)"

definition call_succeeded :: "breaker \<Rightarrow> breaker" where
  "call_succeeded b = b\<lparr>is_open_state := False, failure_count := 0\<rparr>"

definition circuit :: "nat \<Rightarrow> real \<Rightarrow> env \<Rightarrow> breaker
    \<Rightarrow> (string list \<Rightarrow> (pyexn + http_response) \<times> string list) \<Rightarrow> string list
    \<Rightarrow> (pyexn + http_response) \<times> breaker \<times> string list" where
  "circuit failure_threshold recovery_timeout ev b f sent =
     (if breaker_opened recovery_timeout b (now ev) then (Inl CircuitBreakerError, b, sent)
      else (case f sent of
              (Inl e, sent') \<Rightarrow> (Inl e, call_failed failure_threshold (settled ev) b, sent')
            | (Inr r, sent') \<Rightarrow> (Inr r, call_succeeded b, sent')))"

section \<open>auth/jwt\_validator.py\<close>

record claims =
  sub :: "string option"
  username :: "string option"
  email :: "string option"
  token_use :: "string option"
  cognito_groups :: "string list option"

text \<open>
  The two functions of \<^verbatim>\<open>jose.jwt\<close> that the validator calls are parameters.
  \<open>get_unverified_header\<close> gives the \<^verbatim>\<open>kid\<close> entry of the token's header (\<open>Some None\<close>
  when the header has none) or \<open>None\<close> where it raises \<^verbatim>\<open>JWTError\<close>; \<open>decode\<close> gives
  the claims of a token verified against a key (signature and expiry), or \<open>None\<close>
  where it raises \<^verbatim>\<open>JWTError\<close>.
\<close>

record jose =
  get_unverified_header :: "string \<Rightarrow> string option option"
  decode :: "string \<Rightarrow> jwk \<Rightarrow> claims option"

text \<open>
  \<^verbatim>\<open>get_jwks\<close>: the key set is fetched when \<^verbatim>\<open>self._jwks is None\<close> and only then; a
  fetch that raises leaves the cache as it was. The key set is the list under
  \<^verbatim>\<open>"keys"\<close>.
\<close>

definition get_jwks :: "gw_state \<Rightarrow> env \<Rightarrow> (pyexn + jwk list) \<times> gw_state" where
  "get_jwks s ev =
     (case jwks_cache s of
        None \<Rightarrow>
          (case jwks_response ev of
             None \<Rightarrow> (Inl (HTTPError ''jwks''), s\<lparr>jwks_fetches := jwks_fetches s + 1\<rparr>)
           | Some ks \<Rightarrow>
               (Inr ks, s\<lparr>jwks_cache := Some ks, jwks_fetches := jwks_fetches s + 1\<rparr>))
      | Some ks \<Rightarrow> (Inr ks, s))"

definition extract_token :: "string option \<Rightarrow> string option" where
  "extract_token authorization_header =
     (case authorization_header of
        None \<Rightarrow> None
      | Some h \<Rightarrow>
          (if h = [] then None
           else (let parts = split_ws h
                 in if length parts \<noteq> 2 \<or> lower (parts ! 0) \<noteq> ''bearer'' then None
                    else Some (parts ! 1))))"

text \<open>The loop over \<^verbatim>\<open>jwks.get("keys", [])\<close> that stops at the first key of that id.\<close>

fun find_key :: "jwk list \<Rightarrow> string \<Rightarrow> jwk option" where
  "find_key [] kid = None"
| "find_key (jwk_key # rest) kid =
     (if jwk_kid jwk_key = Some kid then Some jwk_key else find_key rest kid)"

definition validate_token :: "jose \<Rightarrow> gw_state \<Rightarrow> env \<Rightarrow> string
    \<Rightarrow> claims option \<times> gw_state" where
  "validate_token lib s ev token =
     (case get_jwks s ev of
        (Inl e, s') \<Rightarrow> (None, s')
      | (Inr jwks, s') \<Rightarrow>
          (case get_unverified_header lib token of
             None \<Rightarrow> (None, s')
           | Some None \<Rightarrow> (None, s')
           | Some (Some kid) \<Rightarrow>
               (if kid = [] then (None, s')
                else (case find_key jwks kid of
                        None \<Rightarrow> (None, s')
                      | Some key \<Rightarrow>
                          (case decode lib token key of
                             None \<Rightarrow> (None, s')
                           | Some cl \<Rightarrow>
                               (if token_use cl \<noteq> Some ''access'' then (None, s')
                                else (Some cl, s')))))))"

record user_info =
  ui_user_id :: "string option"
  ui_username :: "string option"
  ui_roles :: "string list"
  ui_department :: string
  ui_email :: "string option"

definition extract_user_info :: "claims \<Rightarrow> user_info" where
  "extract_user_info cl =
     (let rs = (case cognito_groups cl of None \<Rightarrow> [] | Some gs \<Rightarrow> gs);
          dept = (case rs of [] \<Rightarrow> ''unknown'' | g # gs \<Rightarrow> g)
      in \<lparr>ui_user_id = sub cl, ui_username = username cl, ui_roles = rs,
          ui_department = dept, ui_email = email cl\<rparr>)"

section \<open>api\_gateway.py\<close>

text \<open>
  \<^verbatim>\<open>if not claims\<close> is false for the claims that \<^verbatim>\<open>validate_token\<close> returns: they hold
  \<^verbatim>\<open>token_use\<close>, so the dict is not empty.
\<close>

definition validate_jwt_token :: "jose \<Rightarrow> gw_state \<Rightarrow> env \<Rightarrow> string option
    \<Rightarrow> (http_result + user_info) \<times> gw_state" where
  "validate_jwt_token lib s ev authorization =
     (if authorization = None \<or> authorization = Some []
      then (Inl (HTTPException 401 ''Missing Authorization header''), s)
      else (case extract_token authorization of
              None \<Rightarrow> (Inl (HTTPException 401 ''Invalid Authorization header format''), s)
            | Some token \<Rightarrow>
                (case validate_token lib s ev token of
                   (None, s') \<Rightarrow> (Inl (HTTPException 401 ''Invalid or expired token''), s')
                 | (Some cl, s') \<Rightarrow> (Inr (extract_user_info cl), s'))))"

definition forward_to_application :: "settings \<Rightarrow> gw_state \<Rightarrow> env \<Rightarrow> string \<Rightarrow> string
    \<Rightarrow> (pyexn + http_response) \<times> gw_state" where
  "forward_to_application cfg s ev meth path =
     (case circuit 5 60 ev (app_breaker s)
             (stop_after_attempt 3 (net ev) (application_service_url cfg @ path)) (outbound s) of
        (res, b, sent) \<Rightarrow> (res, s\<lparr>app_breaker := b, outbound := sent\<rparr>))"

definition create_audit_log :: "user_info \<Rightarrow> request \<Rightarrow> nat \<Rightarrow> string option \<Rightarrow> audit_log" where
  "create_audit_log ui rq response_status err =
     \<lparr>audit_user_id = ui_user_id ui, audit_username = ui_username ui,
      audit_department = Some (ui_department ui), audit_method = http_method rq,
      audit_path = url_path rq, audit_status_code = response_status, audit_error = err,
      audit_client_ip = client_host rq\<rparr>"

definition emit :: "audit_log \<Rightarrow> gw_state \<Rightarrow> gw_state" where
  "emit entry s = s\<lparr>audit_trail := audit_trail s @ [entry]\<rparr>"

text \<open>\<^verbatim>\<open>str(e)\<close>, as far as the model keeps the text of an exception.\<close>

definition exn_text :: "pyexn \<Rightarrow> string" where
  "exn_text e =
     (case e of
        HTTPError m \<Rightarrow> m
      | OtherError m \<Rightarrow> m
      | RetryError e' \<Rightarrow> ''RetryError''
      | CircuitBreakerError \<Rightarrow> ''CircuitBreakerError''
      | AttributeError \<Rightarrow> ''AttributeError''
      | JSONDecodeError \<Rightarrow> ''JSONDecodeError'')"

text \<open>
  The body shared by \<^verbatim>\<open>process_file\<close>, \<^verbatim>\<open>get_status\<close> and \<^verbatim>\<open>get_download_url\<close>: the
  \<^verbatim>\<open>try\<close> block that forwards, logs the audit entry and builds the response, and its
  two \<^verbatim>\<open>except\<close> clauses. \<^verbatim>\<open>response.json()\<close> is evaluated after the audit entry of
  the response has been logged, inside the same \<^verbatim>\<open>try\<close>.
\<close>

definition api_handler :: "settings \<Rightarrow> gw_state \<Rightarrow> env \<Rightarrow> user_info \<Rightarrow> request
    \<Rightarrow> string \<Rightarrow> string \<Rightarrow> http_result \<times> gw_state" where
  "api_handler cfg s ev ui rq meth path =
     (case forward_to_application cfg s ev meth path of
        (Inr response, s1) \<Rightarrow>
          (let s2 = emit (create_audit_log ui rq (status_code response) None) s1
           in (case json_body response of
                 Some content \<Rightarrow> (JSONResponse content (status_code response), s2)
               | None \<Rightarrow>
                   (HTTPException 500 ''Internal server error'',
                    emit (create_audit_log ui rq 500 (Some (exn_text JSONDecodeError))) s2)))
      | (Inl e, s1) \<Rightarrow>
          (if is_httpx_error e
           then (HTTPException 502 ''Backend service unavailable'',
                 emit (create_audit_log ui rq 502 (Some (exn_text e))) s1)
           else (HTTPException 500 ''Internal server error'',
                 emit (create_audit_log ui rq 500 (Some (exn_text e))) s1)))"

text \<open>
  A data-plane endpoint: the \<^verbatim>\<open>Depends(validate_jwt_token)\<close> dependency, then the
  handler. \<^verbatim>\<open>POST /process\<close> forwards \<^verbatim>\<open>("POST", "/process")\<close>, \<^verbatim>\<open>GET /status/{job_id}\<close>
  and \<^verbatim>\<open>GET /download/{job_id}\<close> forward \<^verbatim>\<open>"GET"\<close> and their own path.
\<close>

definition api_endpoint :: "settings \<Rightarrow> jose \<Rightarrow> gw_state \<Rightarrow> env \<Rightarrow> request \<Rightarrow> string option
    \<Rightarrow> string \<Rightarrow> string \<Rightarrow> http_result \<times> gw_state" where
  "api_endpoint cfg lib s ev rq authorization meth path =
     (case validate_jwt_token lib s ev authorization of
        (Inl exc, s') \<Rightarrow> (exc, s')
      | (Inr ui, s') \<Rightarrow> api_handler cfg s' ev ui rq meth path)"

section \<open>mcp\_gateway.py\<close>

record service_info =
  service_name :: string
  service_department :: "string option"

definition validate_service_token :: "settings \<Rightarrow> string option \<Rightarrow> http_result + service_info" where
  "validate_service_token cfg x_service_token =
     (case x_service_token of
        None \<Rightarrow> Inl (HTTPException 401 ''Missing service token'')
      | Some t \<Rightarrow>
          (if t = [] then Inl (HTTPException 401 ''Missing service token'')
           else if service_token cfg \<noteq> None \<and> service_token cfg \<noteq> Some []
                   \<and> Some t \<noteq> service_token cfg
                then Inl (HTTPException 401 ''Invalid service token'')
                else Inr \<lparr>service_name = ''application'', service_department = None\<rparr>))"

definition get_mcp_server_url :: "settings \<Rightarrow> string \<Rightarrow> string option" where
  "get_mcp_server_url cfg server_type =
     map_of [(''finance'', mcp_finance_url cfg),
             (''hr'', mcp_hr_url cfg),
             (''legal'', mcp_legal_url cfg)] (lower server_type)"

definition extract_department_from_request :: "mcp_request \<Rightarrow> json option" where
  "extract_department_from_request mr =
     (case params mr of
        None \<Rightarrow> None
      | Some ps \<Rightarrow>
          (if ps = [] then None
           else (case map_of ps ''department'' of
                   Some d \<Rightarrow>
                     (if truthy d then Some d
                      else (case map_of ps ''server_type'' of
                              Some t \<Rightarrow> (if truthy t then Some t else None)
                            | None \<Rightarrow> None))
                 | None \<Rightarrow>
                     (case map_of ps ''server_type'' of
                        Some t \<Rightarrow> (if truthy t then Some t else None)
                      | None \<Rightarrow> None))))"

definition forward_to_mcp_server :: "gw_state \<Rightarrow> env \<Rightarrow> string \<Rightarrow> mcp_request
    \<Rightarrow> (pyexn + http_response) \<times> gw_state" where
  "forward_to_mcp_server s ev server_url mr =
     (case circuit 5 60 ev (mcp_breaker s)
             (stop_after_attempt 3 (net ev) server_url) (outbound s) of
        (res, b, sent) \<Rightarrow> (res, s\<lparr>mcp_breaker := b, outbound := sent\<rparr>))"

definition create_mcp_audit_log :: "service_info \<Rightarrow> request \<Rightarrow> mcp_request \<Rightarrow> nat
    \<Rightarrow> string option \<Rightarrow> string option \<Rightarrow> audit_log" where
  "create_mcp_audit_log si rq mr response_status department err =
     \<lparr>audit_user_id = Some (service_name si), audit_username = Some (service_name si),
      audit_department = department, audit_method = ''MCP:'' @ mcp_method mr,
      audit_path = url_path rq, audit_status_code = response_status, audit_error = err,
      audit_client_ip = client_host rq\<rparr>"

definition header_roles :: "string \<Rightarrow> string list" where
  "header_roles x_user_roles = map strip (split_on (CHR '','') x_user_roles)"

text \<open>
  The \<^verbatim>\<open>try\<close> block of \<^verbatim>\<open>route_mcp_request\<close> with its two \<^verbatim>\<open>except\<close> clauses.
\<close>

definition forward_and_respond :: "gw_state \<Rightarrow> env \<Rightarrow> service_info \<Rightarrow> request
    \<Rightarrow> mcp_request \<Rightarrow> string \<Rightarrow> string \<Rightarrow> http_result \<times> gw_state" where
  "forward_and_respond s ev si rq mr department server_url =
     (case forward_to_mcp_server s ev server_url mr of
        (Inr response, s1) \<Rightarrow>
          (let s2 = emit (create_mcp_audit_log si rq mr (status_code response)
                            (Some department) None) s1
           in (case json_body response of
                 Some content \<Rightarrow> (JSONResponse content (status_code response), s2)
               | None \<Rightarrow>
                   (HTTPException 500 ''Internal server error'',
                    emit (create_mcp_audit_log si rq mr 500 (Some department)
                            (Some (exn_text JSONDecodeError))) s2)))
      | (Inl e, s1) \<Rightarrow>
          (if is_httpx_error e
           then (HTTPException 502 ''MCP server unavailable'',
                 emit (create_mcp_audit_log si rq mr 502 (Some department)
                         (Some (exn_text e))) s1)
           else (HTTPException 500 ''Internal server error'',
                 emit (create_mcp_audit_log si rq mr 500 (Some department)
                         (Some (exn_text e))) s1)))"

text \<open>
  The roles that \<^verbatim>\<open>route_mcp_request\<close> and \<^verbatim>\<open>list_mcp_servers\<close> read from the
  \<^verbatim>\<open>X-User-Roles\<close> header: none when \<^verbatim>\<open>x_user_roles\<close> is \<^verbatim>\<open>None\<close> or empty (the
  \<^verbatim>\<open>and x_user_roles\<close> of both guards), else the stripped parts between commas.
\<close>

definition declared_roles :: "string option \<Rightarrow> string list option" where
  "declared_roles x_user_roles =
     (case x_user_roles of
        None \<Rightarrow> None
      | Some h \<Rightarrow> (if h = [] then None else Some (header_roles h)))"

text \<open>
  The checks of \<^verbatim>\<open>route_mcp_request\<close> once the department is known to be a string,
  in the order of the source: RBAC (\<open>route_checked\<close>), then department isolation,
  server URL and forwarding (\<open>isolate_and_forward\<close>).
\<close>

definition isolate_and_forward :: "settings \<Rightarrow> gw_state \<Rightarrow> env \<Rightarrow> service_info
    \<Rightarrow> request \<Rightarrow> mcp_request \<Rightarrow> string option \<Rightarrow> string \<Rightarrow> http_result \<times> gw_state" where
  "isolate_and_forward cfg s ev si rq mr x_user_roles department =
     (if department_isolation cfg
         \<and> (case declared_roles x_user_roles of
               None \<Rightarrow> False
             | Some rs \<Rightarrow> lower department \<notin> set (map lower rs))
      then (HTTPException 403 ''Access denied: department isolation'',
            emit (create_mcp_audit_log si rq mr 403 (Some department)
                    (Some ''Department isolation violation'')) s)
      else (case get_mcp_server_url cfg department of
              None \<Rightarrow> (HTTPException 404 ''MCP server not found'', s)
            | Some server_url \<Rightarrow>
                (if server_url = [] then (HTTPException 404 ''MCP server not found'', s)
                 else forward_and_respond s ev si rq mr department server_url)))"

definition route_checked :: "settings \<Rightarrow> rbac_engine \<Rightarrow> gw_state \<Rightarrow> env \<Rightarrow> service_info
    \<Rightarrow> request \<Rightarrow> mcp_request \<Rightarrow> string option \<Rightarrow> string \<Rightarrow> http_result \<times> gw_state" where
  "route_checked cfg eng s ev si rq mr x_user_roles department =
     (case (if rbac_enabled cfg then declared_roles x_user_roles else None) of
        None \<Rightarrow> isolate_and_forward cfg s ev si rq mr x_user_roles department
      | Some rs \<Rightarrow>
          (case map_department_to_server department of
             None \<Rightarrow> (HTTPException 400 ''Unknown department'', s)
           | Some res \<Rightarrow>
               (if \<not> check_permission eng rs res ''read''
                then (HTTPException 403 ''Access denied'',
                      emit (create_mcp_audit_log si rq mr 403 (Some department)
                              (Some ''RBAC permission denied'')) s)
                else isolate_and_forward cfg s ev si rq mr x_user_roles department)))"

text \<open>
  \<^verbatim>\<open>route_mcp_request\<close>. The department is whatever JSON value the parameters hold;
  every path after the check for a missing department calls \<^verbatim>\<open>.lower()\<close> on it first
  (in \<^verbatim>\<open>map_department_to_server\<close>, in the isolation check or in
  \<^verbatim>\<open>get_mcp_server_url\<close>), which raises \<^verbatim>\<open>AttributeError\<close> outside the \<^verbatim>\<open>try\<close> block
  when the value is not a string.
\<close>

definition route_mcp_request :: "settings \<Rightarrow> rbac_engine \<Rightarrow> gw_state \<Rightarrow> env \<Rightarrow> request
    \<Rightarrow> mcp_request \<Rightarrow> string option \<Rightarrow> string option \<Rightarrow> http_result \<times> gw_state" where
  "route_mcp_request cfg eng s ev rq mr x_service_token x_user_roles =
     (case validate_service_token cfg x_service_token of
        Inl exc \<Rightarrow> (exc, s)
      | Inr si \<Rightarrow>
          (case extract_department_from_request mr of
             None \<Rightarrow> (HTTPException 400 ''Missing department in request'', s)
           | Some (JStr department) \<Rightarrow>
               route_checked cfg eng s ev si rq mr x_user_roles department
           | Some other \<Rightarrow> (Uncaught AttributeError, s)))"

record server_entry =
  server_type :: string
  server_url :: string
  server_description :: string

text \<open>
  \<^verbatim>\<open>list_mcp_servers\<close>: the loop over the accessible resources, then the handler.
\<close>

fun servers_of :: "settings \<Rightarrow> string list \<Rightarrow> server_entry list" where
  "servers_of cfg [] = []"
| "servers_of cfg (res # rest) =
     (if res = ''mcp-finance-server''
      then \<lparr>server_type = ''finance'', server_url = mcp_finance_url cfg,
            server_description = ''Finance MCP Server''\<rparr> # servers_of cfg rest
      else if res = ''mcp-hr-server''
      then \<lparr>server_type = ''hr'', server_url = mcp_hr_url cfg,
            server_description = ''HR MCP Server''\<rparr> # servers_of cfg rest
      else if res = ''mcp-legal-server''
      then \<lparr>server_type = ''legal'', server_url = mcp_legal_url cfg,
            server_description = ''Legal MCP Server''\<rparr> # servers_of cfg rest
      else servers_of cfg rest)"

definition list_mcp_servers :: "settings \<Rightarrow> rbac_engine \<Rightarrow> string option \<Rightarrow> string option
    \<Rightarrow> http_result + server_entry list" where
  "list_mcp_servers cfg eng x_service_token x_user_roles =
     (case validate_service_token cfg x_service_token of
        Inl exc \<Rightarrow> Inl exc
      | Inr si \<Rightarrow>
          (case declared_roles x_user_roles of
             Some rs \<Rightarrow> Inr (servers_of cfg (get_accessible_resources eng rs))
           | None \<Rightarrow>
               Inr [\<lparr>server_type = ''finance'', server_url = mcp_finance_url cfg,
                     server_description = ''Finance MCP Server''\<rparr>,
                    \<lparr>server_type = ''hr'', server_url = mcp_hr_url cfg,
                     server_description = ''HR MCP Server''\<rparr>,
                    \<lparr>server_type = ''legal'', server_url = mcp_legal_url cfg,
                     server_description = ''Legal MCP Server''\<rparr>]))"

section \<open>Sample data for evaluation\<close>

text \<open>
  Concrete inputs on which the theorems below are evaluated. The settings are the
  defaults of \<^verbatim>\<open>config.py\<close> with a service token set. The policy is an example with
  one role per department, each holding \<^verbatim>\<open>read\<close> on its own server, and an
  \<^verbatim>\<open>admin\<close> role holding \<^verbatim>\<open>read\<close> and \<^verbatim>\<open>write\<close> on all three.
\<close>

definition sample_settings :: settings where
  "sample_settings =
     \<lparr>rbac_enabled = True, department_isolation = True,
      application_service_url = ''http://application-service.local:8000'',
      mcp_finance_url = ''http://mcp-finance-service.local:8080'',
      mcp_hr_url = ''http://mcp-hr-service.local:8080'',
      mcp_legal_url = ''http://mcp-legal-service.local:8080'',
      service_token = Some ''s3cret''\<rparr>"

definition sample_policy :: rbac_policy where
  "sample_policy =
     \<lparr>roles =
        [\<lparr>name = ''finance'', description = ''Finance'',
          permissions = [\<lparr>resource = ''mcp-finance-server'', actions = [''read'']\<rparr>]\<rparr>,
         \<lparr>name = ''hr'', description = ''HR'',
          permissions = [\<lparr>resource = ''mcp-hr-server'', actions = [''read'']\<rparr>]\<rparr>,
         \<lparr>name = ''legal'', description = ''Legal'',
          permissions = [\<lparr>resource = ''mcp-legal-server'', actions = [''read'']\<rparr>]\<rparr>,
         \<lparr>name = ''admin'', description = ''Administrator'',
          permissions = [\<lparr>resource = ''mcp-finance-server'', actions = [''read'', ''write'']\<rparr>,
                         \<lparr>resource = ''mcp-hr-server'', actions = [''read'', ''write'']\<rparr>,
                         \<lparr>resource = ''mcp-legal-server'', actions = [''read'', ''write'']\<rparr>]\<rparr>]\<rparr>"

definition sample_engine :: rbac_engine where
  "sample_engine = mk_rbac_engine sample_policy"

definition closed_breaker :: breaker where
  "closed_breaker = \<lparr>is_open_state = False, failure_count = 0, opened_at = 0\<rparr>"

definition fresh_state :: gw_state where
  "fresh_state =
     \<lparr>jwks_cache = None, jwks_fetches = 0, mcp_breaker = closed_breaker,
      app_breaker = closed_breaker, outbound = [], audit_trail = []\<rparr>"

definition sample_keys :: "jwk list" where
  "sample_keys = [\<lparr>jwk_kid = Some ''key-1'', jwk_material = ''n1''\<rparr>,
                  \<lparr>jwk_kid = Some ''key-2'', jwk_material = ''n2''\<rparr>]"

definition sample_claims :: claims where
  "sample_claims =
     \<lparr>sub = Some ''u-1'', username = Some ''alice'', email = Some ''alice@example.com'',
      token_use = Some ''access'', cognito_groups = Some [''finance'', ''admin'']\<rparr>"

text \<open>
  A stand-in for the token library on three tokens: \<^verbatim>\<open>tok-access\<close> is signed by
  \<^verbatim>\<open>key-1\<close> and carries the sample claims, \<^verbatim>\<open>tok-id\<close> is signed by \<^verbatim>\<open>key-1\<close> and is
  an identity token, \<^verbatim>\<open>tok-stray\<close> names the key \<^verbatim>\<open>key-9\<close>.
\<close>

definition sample_jose :: jose where
  "sample_jose =
     \<lparr>get_unverified_header =
        (\<lambda>t. if t = ''tok-access'' \<or> t = ''tok-id'' then Some (Some ''key-1'')
             else if t = ''tok-stray'' then Some (Some ''key-9'')
             else None),
      decode =
        (\<lambda>t k. if jwk_kid k = Some ''key-1'' \<and> t = ''tok-access'' then Some sample_claims
               else if jwk_kid k = Some ''key-1'' \<and> t = ''tok-id''
               then Some (sample_claims\<lparr>token_use := Some ''id''\<rparr>)
               else None)\<rparr>"

definition ok_response :: http_response where
  "ok_response = \<lparr>status_code = 200, json_body = Some (JObj [(''result'', JStr ''ok'')])\<rparr>"

definition env_up :: env where
  "env_up = \<lparr>net = (\<lambda>n. Resp ok_response), jwks_response = Some sample_keys,
             now = 10, settled = 11\<rparr>"

definition env_down :: env where
  "env_down = \<lparr>net = (\<lambda>n. Raises (HTTPError ''ConnectTimeout'')), jwks_response = Some sample_keys,
               now = 10, settled = 11\<rparr>"

definition sample_request :: request where
  "sample_request =
     \<lparr>http_method = ''POST'', url_path = ''/mcp'', client_host = Some ''10.0.0.7'',
      headers = [], body = []\<rparr>"

definition sample_call :: "string \<Rightarrow> mcp_request" where
  "sample_call dept =
     \<lparr>jsonrpc = ''2.0'', req_id = ''1'', mcp_method = ''tools/list'',
      params = Some [(''department'', JStr dept)]\<rparr>"

text \<open>A policy file that opens but is not well-formed YAML.\<close>

definition broken_policy_io :: "unit policy_io" where
  "broken_policy_io =
     \<lparr>open_read = (\<lambda>f. Some ''roles: [''), yaml_safe_load = (\<lambda>t. None),
      validate_policy = (\<lambda>y. Some sample_policy)\<rparr>"

text \<open>
  A process whose key-set cache is populated, and an environment in which the identity
  provider has since published a further key, \<^verbatim>\<open>key-9\<close>.
\<close>

definition cached_state :: gw_state where
  "cached_state = fresh_state\<lparr>jwks_cache := Some sample_keys, jwks_fetches := 1\<rparr>"

definition env_rotated :: env where
  "env_rotated = env_up\<lparr>jwks_response :=
      Some (\<lparr>jwk_kid = Some ''key-9'', jwk_material = ''n9''\<rparr> # sample_keys)\<rparr>"

text \<open>
  A second stand-in for the token library: \<^verbatim>\<open>tok-second\<close> is an access token signed
  by \<^verbatim>\<open>key-2\<close>, the second key of the sample key set, and carries no groups claim.
\<close>

definition plain_claims :: claims where
  "plain_claims =
     \<lparr>sub = Some ''u-2'', username = Some ''bob'', email = None,
      token_use = Some ''access'', cognito_groups = None\<rparr>"

definition second_key_jose :: jose where
  "second_key_jose =
     \<lparr>get_unverified_header = (\<lambda>t. if t = ''tok-second'' then Some (Some ''key-2'') else None),
      decode = (\<lambda>t k. if k = \<lparr>jwk_kid = Some ''key-2'', jwk_material = ''n2''\<rparr> \<and> t = ''tok-second''
                      then Some plain_claims else None)\<rparr>"

text \<open>
  A roles header in which a no-break space follows the comma: \<^verbatim>\<open>admin,\<close> 0xA0
  \<^verbatim>\<open>Finance\<close>.
\<close>

definition spaced_roles_header :: string where
  "spaced_roles_header = ''admin,'' @ [CHR 0xA0] @ ''Finance''"

text \<open>
  One control-plane call for the legal department with the role \<^verbatim>\<open>legal\<close>, the state
  after a number of such calls in a row, and the state after five of them while the
  upstream times out. In \<open>env_in_window\<close> the clock reads 40 s, inside the 60 s that
  follow the fifth failure (recorded at 11 s).
\<close>

definition legal_call :: "env \<Rightarrow> gw_state \<Rightarrow> http_result \<times> gw_state" where
  "legal_call ev s =
     route_mcp_request sample_settings sample_engine s ev sample_request
       (sample_call ''legal'') (Some ''s3cret'') (Some ''legal'')"

fun repeat_call :: "nat \<Rightarrow> (gw_state \<Rightarrow> http_result \<times> gw_state) \<Rightarrow> gw_state \<Rightarrow> gw_state" where
  "repeat_call 0 f s = s"
| "repeat_call (Suc n) f s = repeat_call n f (snd (f s))"

definition tripped_state :: gw_state where
  "tripped_state = repeat_call 5 (legal_call env_down) fresh_state"

definition env_in_window :: env where
  "env_in_window = env_down\<lparr>now := 40, settled := 41\<rparr>"

text \<open>
  What an exit of a handler means for the audit entries \<open>new\<close> it logged, given its
  result \<open>r\<close> and whether the forwarding call raised: none on a raised 400, 401 or
  404; exactly one, of status 403, on a raised 403; exactly one, of the relayed status,
  when an upstream response is relayed; exactly one, of the status raised, when
  forwarding raised and the handler answers 500 or 502.
\<close>

abbreviation (input) audit_per_exit :: "http_result \<Rightarrow> audit_log list \<Rightarrow> bool \<Rightarrow> bool" where
  "audit_per_exit r new raised \<equiv>
     (\<forall>c detail. r = HTTPException c detail \<and> (c = 400 \<or> c = 401 \<or> c = 404) \<longrightarrow> new = [])
   \<and> (\<forall>detail. r = HTTPException 403 detail \<longrightarrow> (\<exists>a. new = [a] \<and> audit_status_code a = 403))
   \<and> (\<forall>content c. r = JSONResponse content c \<longrightarrow> (\<exists>a. new = [a] \<and> audit_status_code a = c))
   \<and> (\<forall>c detail. r = HTTPException c detail \<and> (c = 500 \<or> c = 502) \<and> raised
          \<longrightarrow> (\<exists>a. new = [a] \<and> audit_status_code a = c))"

section \<open>Properties of the RBAC engine\<close>

lemma check_permission_iff:
  "check_permission eng rs res act \<longleftrightarrow>
     (\<exists>rn \<in> set rs. \<exists>r. role_map eng rn = Some r \<and> permissions_grant (permissions r) res act)"
  by (induction rs) (auto split: option.splits)

lemma role_map_of_empty_policy: "role_map (mk_rbac_engine \<lparr>roles = []\<rparr>) rn = None"
  by (simp add: mk_rbac_engine_def)

lemma check_permission_empty_policy:
  "\<not> check_permission (mk_rbac_engine \<lparr>roles = []\<rparr>) rs res act"
  by (simp add: check_permission_iff role_map_of_empty_policy)

lemma sample_finance_read:
  "check_permission sample_engine [''finance''] ''mcp-finance-server'' ''read''"
  by (simp add: sample_engine_def mk_rbac_engine_def sample_policy_def)

text \<open>
  Claim C7. If the policy file cannot be opened, or its text is not well-formed YAML, or
  the parsed data does not validate as a policy, \<^verbatim>\<open>_load_policy\<close> returns the empty
  policy instead of raising, and the engine built from it denies every
  (roles, resource, action).
\<close>

theorem load_policy_fails_closed:
  assumes "open_read io policy_file = None
         \<or> (\<exists>txt. open_read io policy_file = Some txt \<and> yaml_safe_load io txt = None)
         \<or> (\<exists>txt y. open_read io policy_file = Some txt \<and> yaml_safe_load io txt = Some y
                     \<and> validate_policy io y = None)"
  shows "load_policy io policy_file = \<lparr>roles = []\<rparr>
       \<and> check_permission (init_rbac_engine io policy_file) rs res act = False"
proof -
  from assms have "load_policy io policy_file = \<lparr>roles = []\<rparr>"
    by (auto simp: load_policy_def)
  then show ?thesis
    by (simp add: init_rbac_engine_def check_permission_empty_policy)
qed

theorem load_policy_fails_closed_witness:
  "open_read broken_policy_io ''policies.yaml'' = Some ''roles: [''
   \<and> yaml_safe_load broken_policy_io ''roles: ['' = None
   \<and> load_policy broken_policy_io ''policies.yaml'' = \<lparr>roles = []\<rparr>
   \<and> check_permission (init_rbac_engine broken_policy_io ''policies.yaml'')
        [''admin''] ''mcp-finance-server'' ''read'' = False"
proof -
  have h: "open_read broken_policy_io ''policies.yaml'' = Some ''roles: [''
           \<and> yaml_safe_load broken_policy_io ''roles: ['' = None"
    by (simp add: broken_policy_io_def)
  then have "open_read broken_policy_io ''policies.yaml'' = None
         \<or> (\<exists>txt. open_read broken_policy_io ''policies.yaml'' = Some txt
                  \<and> yaml_safe_load broken_policy_io txt = None)
         \<or> (\<exists>txt y. open_read broken_policy_io ''policies.yaml'' = Some txt
                  \<and> yaml_safe_load broken_policy_io txt = Some y
                  \<and> validate_policy broken_policy_io y = None)"
    by blast
  from load_policy_fails_closed [OF this, of "[''admin'']" "''mcp-finance-server''" "''read''"] h
  show ?thesis by simp
qed

text \<open>
  Claim C8. \<^verbatim>\<open>check_permission\<close> is monotonic in the role set: if it grants
  (resource, action) to the roles \<open>R\<close>, it grants it to any role list whose set of roles
  is \<open>R\<close> with one role \<open>r\<close> added.
\<close>

theorem check_permission_monotonic:
  assumes "check_permission eng R res act" and "set R' = insert r (set R)"
  shows "check_permission eng R' res act"
  using assms by (auto simp: check_permission_iff)

theorem check_permission_monotonic_witness:
  "check_permission sample_engine [''finance''] ''mcp-finance-server'' ''read''
   \<and> set [''intern'', ''finance''] = insert ''intern'' (set [''finance''])
   \<and> check_permission sample_engine [''intern'', ''finance''] ''mcp-finance-server'' ''read''"
proof -
  have s: "set [''intern'', ''finance''] = insert ''intern'' (set [''finance''])"
    by simp
  from check_permission_monotonic [OF sample_finance_read s] sample_finance_read s
  show ?thesis by blast
qed

section \<open>Properties of the control-plane surface\<close>

text \<open>
  Claim C10. A \<^verbatim>\<open>GET /servers\<close> request that carries a valid service token and no
  \<^verbatim>\<open>X-User-Roles\<close> header is answered with all three configured servers, finance, hr
  and legal, whatever the policy.
\<close>

theorem list_mcp_servers_without_roles:
  assumes "x_service_token = Some t" and "t \<noteq> []"
    and "service_token cfg = None \<or> service_token cfg = Some [] \<or> service_token cfg = Some t"
  shows "list_mcp_servers cfg eng x_service_token None =
     Inr [\<lparr>server_type = ''finance'', server_url = mcp_finance_url cfg,
           server_description = ''Finance MCP Server''\<rparr>,
          \<lparr>server_type = ''hr'', server_url = mcp_hr_url cfg,
           server_description = ''HR MCP Server''\<rparr>,
          \<lparr>server_type = ''legal'', server_url = mcp_legal_url cfg,
           server_description = ''Legal MCP Server''\<rparr>]"
  using assms
  by (auto simp: list_mcp_servers_def validate_service_token_def declared_roles_def)

theorem list_mcp_servers_without_roles_witness:
  "service_token sample_settings = Some ''s3cret''
   \<and> list_mcp_servers sample_settings (mk_rbac_engine \<lparr>roles = []\<rparr>) (Some ''s3cret'') None =
     Inr [\<lparr>server_type = ''finance'', server_url = ''http://mcp-finance-service.local:8080'',
           server_description = ''Finance MCP Server''\<rparr>,
          \<lparr>server_type = ''hr'', server_url = ''http://mcp-hr-service.local:8080'',
           server_description = ''HR MCP Server''\<rparr>,
          \<lparr>server_type = ''legal'', server_url = ''http://mcp-legal-service.local:8080'',
           server_description = ''Legal MCP Server''\<rparr>]"
proof -
  have t: "service_token sample_settings = Some ''s3cret''"
    by (simp add: sample_settings_def)
  have "service_token sample_settings = None \<or> service_token sample_settings = Some []
        \<or> service_token sample_settings = Some ''s3cret''"
    using t by simp
  from list_mcp_servers_without_roles [OF refl _ this, of "mk_rbac_engine \<lparr>roles = []\<rparr>"] t
  show ?thesis by (simp add: sample_settings_def)
qed

section \<open>Properties of token verification\<close>

lemma extract_token_nonempty_header:
  "extract_token authorization = Some token \<Longrightarrow> authorization \<noteq> None \<and> authorization \<noteq> Some []"
  by (auto simp: extract_token_def split: option.splits if_splits)

lemma validate_token_state: "snd (validate_token lib s ev token) = snd (get_jwks s ev)"
  by (simp add: validate_token_def split: prod.splits sum.splits option.splits)

lemma sample_bearer: "extract_token (Some ''Bearer tok-access'') = Some ''tok-access''"
  by (simp add: extract_token_def split_ws_def isspace_def lower_def lower_char_def)

lemma sample_bearer_id: "extract_token (Some ''Bearer tok-id'') = Some ''tok-id''"
  by (simp add: extract_token_def split_ws_def isspace_def lower_def lower_char_def)

lemma sample_bearer_stray: "extract_token (Some ''bearer tok-stray'') = Some ''tok-stray''"
  by (simp add: extract_token_def split_ws_def isspace_def lower_def lower_char_def)

lemma find_key_None_iff:
  "find_key ks kid = None \<longleftrightarrow> (\<forall>k \<in> set ks. jwk_kid k \<noteq> Some kid)"
  by (induction ks) auto

lemma find_key_Some:
  "find_key ks kid = Some key \<Longrightarrow> key \<in> set ks \<and> jwk_kid key = Some kid"
  by (induction ks) (auto split: if_splits)

lemma find_key_unique:
  assumes "key \<in> set ks" and "jwk_kid key = Some kid"
    and "\<forall>k \<in> set ks. jwk_kid k = Some kid \<longrightarrow> k = key"
  shows "find_key ks kid = Some key"
proof (cases "find_key ks kid")
  case None
  with assms(1,2) show ?thesis by (auto simp: find_key_None_iff)
next
  case (Some k)
  from find_key_Some [OF Some] assms(3) have "k = key" by blast
  with Some show ?thesis by simp
qed

lemma get_jwks_cached: "jwks_cache s = Some ks \<Longrightarrow> get_jwks s ev = (Inr ks, s)"
  by (simp add: get_jwks_def)

lemma get_jwks_fetched:
  "jwks_cache s = None \<Longrightarrow> jwks_response ev = Some ks \<Longrightarrow>
     get_jwks s ev = (Inr ks, s\<lparr>jwks_cache := Some ks, jwks_fetches := jwks_fetches s + 1\<rparr>)"
  by (simp add: get_jwks_def)

lemma sample_bearer_second: "extract_token (Some ''Bearer tok-second'') = Some ''tok-second''"
  by (simp add: extract_token_def split_ws_def isspace_def lower_def lower_char_def)

text \<open>
  Claim C5. Take a bearer header whose token names a non-empty key id, a key set that is
  the cached one (or, with the cache still empty, the one the identity provider
  returns), a key of that set that is the one carrying the token's key id, against which
  the token decodes (signature and expiry hold) to claims with \<^verbatim>\<open>token_use = access\<close>.
  Then verification succeeds, the cache holds that key set, and the principal's roles
  are the token's \<^verbatim>\<open>cognito:groups\<close> claim (the empty list when the claim is absent) and
  its department is the first listed group, or \<^verbatim>\<open>unknown\<close> when the claim is absent or
  empty.
\<close>

theorem verified_token_principal:
  assumes "extract_token authorization = Some token"
    and "jwks_cache s = Some ks \<or> (jwks_cache s = None \<and> jwks_response ev = Some ks)"
    and "get_unverified_header lib token = Some (Some kid)" and "kid \<noteq> []"
    and "key \<in> set ks" and "jwk_kid key = Some kid"
    and "\<forall>k \<in> set ks. jwk_kid k = Some kid \<longrightarrow> k = key"
    and "decode lib token key = Some cl"
    and "token_use cl = Some ''access''"
  shows "\<exists>ui s'. validate_jwt_token lib s ev authorization = (Inr ui, s')
           \<and> validate_token lib s ev token = (Some cl, s')
           \<and> jwks_cache s' = Some ks
           \<and> ui_roles ui = (case cognito_groups cl of None \<Rightarrow> [] | Some gs \<Rightarrow> gs)
           \<and> ui_department ui =
                (case cognito_groups cl of
                   None \<Rightarrow> ''unknown''
                 | Some [] \<Rightarrow> ''unknown''
                 | Some (g # gs) \<Rightarrow> g)"
proof -
  from assms(2) obtain s' where j: "get_jwks s ev = (Inr ks, s')" and c: "jwks_cache s' = Some ks"
  proof
    assume "jwks_cache s = Some ks"
    then show ?thesis using that [of s] by (simp add: get_jwks_cached)
  next
    assume "jwks_cache s = None \<and> jwks_response ev = Some ks"
    then show ?thesis
      using that [of "s\<lparr>jwks_cache := Some ks, jwks_fetches := jwks_fetches s + 1\<rparr>"]
      by (simp add: get_jwks_fetched)
  qed
  have k: "find_key ks kid = Some key"
    using assms(5,6,7) by (rule find_key_unique)
  have v: "validate_token lib s ev token = (Some cl, s')"
    using j k assms(3,4,8,9) by (simp add: validate_token_def)
  have a: "authorization \<noteq> None \<and> authorization \<noteq> Some []"
    using assms(1) by (rule extract_token_nonempty_header)
  have "validate_jwt_token lib s ev authorization = (Inr (extract_user_info cl), s')"
    using a assms(1) v by (simp add: validate_jwt_token_def)
  then show ?thesis
    using v c by (simp add: extract_user_info_def split: option.splits list.splits)
qed

theorem verified_token_principal_witness:
  "(\<exists>ui s'. validate_jwt_token sample_jose fresh_state env_up (Some ''Bearer tok-access'')
                = (Inr ui, s')
            \<and> jwks_cache s' = Some sample_keys
            \<and> ui_roles ui = [''finance'', ''admin'']
            \<and> ui_department ui = ''finance'')
   \<and> jwks_cache cached_state = Some sample_keys
   \<and> \<lparr>jwk_kid = Some ''key-2'', jwk_material = ''n2''\<rparr> \<in> set sample_keys
   \<and> (\<exists>ui s'. validate_jwt_token second_key_jose cached_state env_rotated
                  (Some ''Bearer tok-second'') = (Inr ui, s')
            \<and> jwks_cache s' = Some sample_keys
            \<and> ui_roles ui = []
            \<and> ui_department ui = ''unknown'')"
proof -
  have cold: "jwks_cache fresh_state = Some sample_keys
        \<or> (jwks_cache fresh_state = None \<and> jwks_response env_up = Some sample_keys)"
    by (simp add: fresh_state_def env_up_def)
  have h1: "get_unverified_header sample_jose ''tok-access'' = Some (Some ''key-1'')"
    by (simp add: sample_jose_def)
  have m1: "\<lparr>jwk_kid = Some ''key-1'', jwk_material = ''n1''\<rparr> \<in> set sample_keys"
    by (simp add: sample_keys_def)
  have u1: "\<forall>k \<in> set sample_keys. jwk_kid k = Some ''key-1''
              \<longrightarrow> k = \<lparr>jwk_kid = Some ''key-1'', jwk_material = ''n1''\<rparr>"
    by (simp add: sample_keys_def)
  have d1: "decode sample_jose ''tok-access'' \<lparr>jwk_kid = Some ''key-1'', jwk_material = ''n1''\<rparr>
           = Some sample_claims"
    by (simp add: sample_jose_def)
  have t1: "token_use sample_claims = Some ''access''"
    by (simp add: sample_claims_def)
  have warm: "jwks_cache cached_state = Some sample_keys"
    by (simp add: cached_state_def)
  have h2: "get_unverified_header second_key_jose ''tok-second'' = Some (Some ''key-2'')"
    by (simp add: second_key_jose_def)
  have m2: "\<lparr>jwk_kid = Some ''key-2'', jwk_material = ''n2''\<rparr> \<in> set sample_keys"
    by (simp add: sample_keys_def)
  have u2: "\<forall>k \<in> set sample_keys. jwk_kid k = Some ''key-2''
              \<longrightarrow> k = \<lparr>jwk_kid = Some ''key-2'', jwk_material = ''n2''\<rparr>"
    by (simp add: sample_keys_def)
  have d2: "decode second_key_jose ''tok-second'' \<lparr>jwk_kid = Some ''key-2'', jwk_material = ''n2''\<rparr>
           = Some plain_claims"
    by (simp add: second_key_jose_def)
  have t2: "token_use plain_claims = Some ''access''"
    by (simp add: plain_claims_def)
  have n1: "''key-1'' \<noteq> []" and n2: "''key-2'' \<noteq> []" by simp_all
  have i1: "jwk_kid \<lparr>jwk_kid = Some ''key-1'', jwk_material = ''n1''\<rparr> = Some ''key-1''"
    and i2: "jwk_kid \<lparr>jwk_kid = Some ''key-2'', jwk_material = ''n2''\<rparr> = Some ''key-2''"
    by simp_all
  have w2: "jwks_cache cached_state = Some sample_keys
        \<or> (jwks_cache cached_state = None \<and> jwks_response env_rotated = Some sample_keys)"
    using warm by simp
  from verified_token_principal [OF sample_bearer cold h1 n1 m1 i1 u1 d1 t1]
  have first: "\<exists>ui s'. validate_jwt_token sample_jose fresh_state env_up (Some ''Bearer tok-access'')
                = (Inr ui, s')
            \<and> jwks_cache s' = Some sample_keys
            \<and> ui_roles ui = [''finance'', ''admin'']
            \<and> ui_department ui = ''finance''"
    by (auto simp: sample_claims_def)
  from verified_token_principal [OF sample_bearer_second w2 h2 n2 m2 i2 u2 d2 t2]
  have second: "\<exists>ui s'. validate_jwt_token second_key_jose cached_state env_rotated
                  (Some ''Bearer tok-second'') = (Inr ui, s')
            \<and> jwks_cache s' = Some sample_keys
            \<and> ui_roles ui = []
            \<and> ui_department ui = ''unknown''"
    by (auto simp: plain_claims_def)
  from first second warm m2 show ?thesis by blast
qed

text \<open>
  Claim C6. For a bearer header whose token either decodes, against whatever key, only
  to claims with \<^verbatim>\<open>token_use\<close> other than \<^verbatim>\<open>access\<close>, or names a key id that has no
  entry in the key set \<^verbatim>\<open>get_jwks\<close> returns, \<^verbatim>\<open>validate_token\<close> returns no claims, the
  dependency raises 401, and every data-plane endpoint answers 401.
\<close>

theorem wrong_use_or_unknown_key_rejected:
  assumes "extract_token authorization = Some token"
    and "(\<forall>key cl. decode lib token key = Some cl \<longrightarrow> token_use cl \<noteq> Some ''access'')
       \<or> (\<forall>kid ks. get_unverified_header lib token = Some (Some kid)
                    \<and> fst (get_jwks s ev) = Inr ks \<longrightarrow> find_key ks kid = None)"
  shows "fst (validate_token lib s ev token) = None
       \<and> fst (validate_jwt_token lib s ev authorization)
           = Inl (HTTPException 401 ''Invalid or expired token'')
       \<and> result_status (fst (api_endpoint cfg lib s ev rq authorization meth path)) = 401
       \<and> audit_trail (snd (api_endpoint cfg lib s ev rq authorization meth path)) = audit_trail s"
proof -
  have v: "fst (validate_token lib s ev token) = None"
    using assms(2)
    by (auto simp: validate_token_def split: prod.splits sum.splits option.splits)
  have a: "authorization \<noteq> None \<and> authorization \<noteq> Some []"
    using assms(1) by (rule extract_token_nonempty_header)
  have st: "audit_trail (snd (get_jwks s ev)) = audit_trail s"
    by (simp add: get_jwks_def split: option.splits)
  obtain s' where vs: "validate_token lib s ev token = (None, s')"
    using v by (cases "validate_token lib s ev token") simp
  then have s': "s' = snd (get_jwks s ev)"
    using validate_token_state [of lib s ev token] by simp
  have j: "validate_jwt_token lib s ev authorization
           = (Inl (HTTPException 401 ''Invalid or expired token''), s')"
    using a assms(1) vs by (simp add: validate_jwt_token_def)
  then show ?thesis
    using v s' st by (simp add: api_endpoint_def)
qed

theorem wrong_use_or_unknown_key_rejected_witness:
  "extract_token (Some ''Bearer tok-id'') = Some ''tok-id''
   \<and> fst (validate_token sample_jose fresh_state env_up ''tok-id'') = None
   \<and> result_status (fst (api_endpoint sample_settings sample_jose fresh_state env_up
        sample_request (Some ''Bearer tok-id'') ''POST'' ''/process'')) = 401
   \<and> extract_token (Some ''bearer tok-stray'') = Some ''tok-stray''
   \<and> fst (validate_token sample_jose fresh_state env_up ''tok-stray'') = None
   \<and> result_status (fst (api_endpoint sample_settings sample_jose fresh_state env_up
        sample_request (Some ''bearer tok-stray'') ''POST'' ''/process'')) = 401"
proof -
  have use: "\<forall>key cl. decode sample_jose ''tok-id'' key = Some cl \<longrightarrow> token_use cl \<noteq> Some ''access''"
    by (auto simp: sample_jose_def sample_claims_def split: if_splits)
  have miss: "\<forall>kid ks. get_unverified_header sample_jose ''tok-stray'' = Some (Some kid)
                \<and> fst (get_jwks fresh_state env_up) = Inr ks \<longrightarrow> find_key ks kid = None"
    by (auto simp: sample_jose_def get_jwks_def fresh_state_def env_up_def sample_keys_def)
  from wrong_use_or_unknown_key_rejected [OF sample_bearer_id disjI1 [OF use],
         of fresh_state env_up sample_settings sample_request "''POST''" "''/process''"]
       wrong_use_or_unknown_key_rejected [OF sample_bearer_stray disjI2 [OF miss],
         of sample_settings sample_request "''POST''" "''/process''"]
       sample_bearer_id sample_bearer_stray
  show ?thesis by simp
qed

text \<open>
  Claim C9, as stated, fails: the key set is not refreshed on a key-id miss. With the
  cache populated, a token that names \<^verbatim>\<open>key-9\<close>, which the cache lacks and the identity
  provider now publishes, is rejected with no fetch made and the cache left as it was,
  and that is the first such miss of the process.
\<close>

theorem kid_miss_triggers_no_refresh:
  "find_key sample_keys ''key-9'' = None
   \<and> get_unverified_header sample_jose ''tok-stray'' = Some (Some ''key-9'')
   \<and> validate_token sample_jose cached_state env_rotated ''tok-stray'' = (None, cached_state)
   \<and> jwks_fetches (snd (validate_token sample_jose cached_state env_rotated ''tok-stray''))
       = jwks_fetches cached_state
   \<and> jwks_cache (snd (validate_token sample_jose cached_state env_rotated ''tok-stray''))
       = Some sample_keys"
  by (simp add: validate_token_def get_jwks_def cached_state_def fresh_state_def
        sample_jose_def sample_keys_def)

text \<open>
  Claim C9, amended. A key-id miss never triggers a refresh. Whatever the token,
  \<^verbatim>\<open>validate_token\<close> changes the process state exactly as \<^verbatim>\<open>get_jwks\<close> does: with the
  cache populated the state is left unchanged (no fetch, same key set); with the cache
  empty one fetch is made before the token is examined, and the cache becomes what the
  fetch returned (it stays empty when the fetch fails).
\<close>

theorem jwks_fetched_only_when_cache_empty:
  "snd (validate_token lib s ev token) = snd (get_jwks s ev)
   \<and> (jwks_cache s \<noteq> None \<longrightarrow> snd (validate_token lib s ev token) = s)
   \<and> (jwks_cache s = None \<longrightarrow>
        jwks_fetches (snd (validate_token lib s ev token)) = jwks_fetches s + 1
        \<and> jwks_cache (snd (validate_token lib s ev token)) = jwks_response ev)"
  by (auto simp: validate_token_state get_jwks_def split: option.splits)

theorem jwks_fetched_only_when_cache_empty_witness:
  "jwks_cache cached_state \<noteq> None
   \<and> snd (validate_token sample_jose cached_state env_rotated ''tok-stray'') = cached_state
   \<and> jwks_cache fresh_state = None
   \<and> jwks_fetches (snd (validate_token sample_jose fresh_state env_up ''tok-stray'')) = 1
   \<and> jwks_cache (snd (validate_token sample_jose fresh_state env_up ''tok-stray''))
       = Some sample_keys"
proof -
  have c: "jwks_cache cached_state \<noteq> None"
    by (simp add: cached_state_def)
  have f: "jwks_cache fresh_state = None" "jwks_fetches fresh_state = 0"
    by (simp_all add: fresh_state_def)
  have r: "jwks_response env_up = Some sample_keys"
    by (simp add: env_up_def)
  from jwks_fetched_only_when_cache_empty
         [of sample_jose cached_state env_rotated "''tok-stray''", THEN conjunct2]
       jwks_fetched_only_when_cache_empty
         [of sample_jose fresh_state env_up "''tok-stray''", THEN conjunct2]
       c f r
  show ?thesis by simp
qed

section \<open>Properties of forwarding\<close>

lemma retrying_outbound: "\<exists>more. snd (retrying n nt url sent) = sent @ url # more"
proof (induction n arbitrary: sent)
  case 0
  show ?case by (simp split: attempt.splits)
next
  case (Suc n)
  show ?case
  proof (cases "nt (length sent)")
    case (Resp r)
    then show ?thesis by simp
  next
    case (Raises e)
    from Suc [of "sent @ [url]"] obtain more
      where "snd (retrying n nt url (sent @ [url])) = (sent @ [url]) @ url # more" by blast
    with Raises show ?thesis by simp
  qed
qed

lemma retrying_raises: "fst (retrying n nt url sent) = Inl e \<Longrightarrow> \<exists>e'. e = RetryError e'"
  by (induction n arbitrary: sent) (auto split: attempt.splits)

lemma retrying_result_url:
  "length sent = length sent' \<Longrightarrow>
     fst (retrying n nt url sent) = fst (retrying n nt url' sent')"
proof (induction n arbitrary: sent sent')
  case 0
  then show ?case by (simp split: attempt.splits)
next
  case (Suc n)
  from Suc.prems have "length (sent @ [url]) = length (sent' @ [url'])" by simp
  from Suc.IH [OF this] Suc.prems show ?case by (simp split: attempt.splits)
qed

lemma forward_to_mcp_server_raises:
  assumes "fst (forward_to_mcp_server s ev url mr) = Inl e"
  shows "e = CircuitBreakerError \<or> (\<exists>e'. e = RetryError e')"
proof (cases "breaker_opened 60 (mcp_breaker s) (now ev)")
  case True
  with assms show ?thesis
    by (simp add: forward_to_mcp_server_def circuit_def)
next
  case False
  obtain r sent' where r: "retrying 2 (net ev) url (outbound s) = (r, sent')"
    by (cases "retrying 2 (net ev) url (outbound s)")
  with assms False have "r = Inl e"
    by (cases r) (simp_all add: forward_to_mcp_server_def circuit_def stop_after_attempt_def)
  with r retrying_raises [of 2 "net ev" url "outbound s" e] show ?thesis by simp
qed

lemma forward_to_mcp_server_not_httpx:
  "fst (forward_to_mcp_server s ev url mr) = Inl e \<Longrightarrow> \<not> is_httpx_error e"
  using forward_to_mcp_server_raises [of s ev url mr e] by auto

lemma forward_to_mcp_server_frame:
  "audit_trail (snd (forward_to_mcp_server s ev url mr)) = audit_trail s"
  "jwks_cache (snd (forward_to_mcp_server s ev url mr)) = jwks_cache s"
  by (simp_all add: forward_to_mcp_server_def split: prod.splits)

lemma forward_to_mcp_server_open:
  "breaker_opened 60 (mcp_breaker s) (now ev) \<Longrightarrow>
     forward_to_mcp_server s ev url mr = (Inl CircuitBreakerError, s)"
  by (simp add: forward_to_mcp_server_def circuit_def)

lemma forward_to_mcp_server_outbound:
  assumes "\<not> breaker_opened 60 (mcp_breaker s) (now ev)"
  shows "\<exists>more. outbound (snd (forward_to_mcp_server s ev url mr)) = outbound s @ url # more"
proof -
  obtain r sent' where r: "retrying 2 (net ev) url (outbound s) = (r, sent')"
    by (cases "retrying 2 (net ev) url (outbound s)")
  from retrying_outbound [of 2 "net ev" url "outbound s"] r
  obtain more where "sent' = outbound s @ url # more" by auto
  with assms r show ?thesis
    by (cases r) (simp_all add: forward_to_mcp_server_def circuit_def stop_after_attempt_def)
qed

lemma forward_and_respond_outbound:
  "outbound (snd (forward_and_respond s ev si rq mr d url))
     = outbound (snd (forward_to_mcp_server s ev url mr))"
  by (simp add: forward_and_respond_def emit_def Let_def split: prod.splits sum.splits option.splits)

lemmas route_defs =
  route_mcp_request_def route_checked_def isolate_and_forward_def forward_and_respond_def
  forward_to_mcp_server_def circuit_def stop_after_attempt_def breaker_opened_def
  call_failed_def call_succeeded_def validate_service_token_def
  extract_department_from_request_def declared_roles_def header_roles_def
  get_mcp_server_url_def map_department_to_server_def create_mcp_audit_log_def emit_def
  exn_text_def strip_def isspace_def lower_def lower_char_def numeral_2_eq_2

lemmas sample_defs =
  sample_settings_def sample_engine_def sample_policy_def mk_rbac_engine_def
  fresh_state_def closed_breaker_def env_up_def env_down_def ok_response_def
  sample_request_def sample_call_def

text \<open>
  Claim C2, as stated, fails: a \<^verbatim>\<open>POST /mcp\<close> request with a valid service token that
  omits the \<^verbatim>\<open>X-User-Roles\<close> header is forwarded to the upstream server and its
  response is relayed.
\<close>

theorem missing_roles_header_counterexample:
  "fst (route_mcp_request sample_settings sample_engine fresh_state env_up sample_request
          (sample_call ''hr'') (Some ''s3cret'') None)
     = JSONResponse (JObj [(''result'', JStr ''ok'')]) 200
   \<and> outbound (snd (route_mcp_request sample_settings sample_engine fresh_state env_up
          sample_request (sample_call ''hr'') (Some ''s3cret'') None))
     = [''http://mcp-hr-service.local:8080'']"
  by (simp add: route_defs sample_defs)

text \<open>
  Claim C2, amended. For a \<^verbatim>\<open>POST /mcp\<close> request that omits the \<^verbatim>\<open>X-User-Roles\<close>
  header (or sends it empty), with a valid service token and a department that names a
  configured upstream server, neither the RBAC check nor the department-isolation
  check is applied: the request goes straight to forwarding, and unless the circuit
  breaker is open an outbound attempt to that server is made.
\<close>

theorem missing_roles_header_is_forwarded:
  assumes "validate_service_token cfg x_service_token = Inr si"
    and "extract_department_from_request mr = Some (JStr department)"
    and "get_mcp_server_url cfg department = Some url" and "url \<noteq> []"
    and "x_user_roles = None \<or> x_user_roles = Some []"
    and "\<not> breaker_opened 60 (mcp_breaker s) (now ev)"
  shows "route_mcp_request cfg eng s ev rq mr x_service_token x_user_roles
           = forward_and_respond s ev si rq mr department url
       \<and> (\<exists>more. outbound (snd (route_mcp_request cfg eng s ev rq mr x_service_token x_user_roles))
                   = outbound s @ url # more)"
proof -
  have d: "declared_roles x_user_roles = None"
    using assms(5) by (auto simp: declared_roles_def)
  have r: "route_mcp_request cfg eng s ev rq mr x_service_token x_user_roles
           = forward_and_respond s ev si rq mr department url"
    using assms(1-4) d
    by (simp add: route_mcp_request_def route_checked_def isolate_and_forward_def)
  from forward_to_mcp_server_outbound [OF assms(6), of url mr] r show ?thesis
    by (simp add: forward_and_respond_outbound)
qed

theorem missing_roles_header_is_forwarded_witness:
  "validate_service_token sample_settings (Some ''s3cret'')
     = Inr \<lparr>service_name = ''application'', service_department = None\<rparr>
   \<and> extract_department_from_request (sample_call ''hr'') = Some (JStr ''hr'')
   \<and> get_mcp_server_url sample_settings ''hr'' = Some ''http://mcp-hr-service.local:8080''
   \<and> \<not> breaker_opened 60 (mcp_breaker fresh_state) (now env_up)
   \<and> route_mcp_request sample_settings sample_engine fresh_state env_up sample_request
        (sample_call ''hr'') (Some ''s3cret'') None
      = forward_and_respond fresh_state env_up
          \<lparr>service_name = ''application'', service_department = None\<rparr>
          sample_request (sample_call ''hr'') ''hr'' ''http://mcp-hr-service.local:8080''
   \<and> (\<exists>more. outbound (snd (route_mcp_request sample_settings sample_engine fresh_state env_up
                    sample_request (sample_call ''hr'') (Some ''s3cret'') None))
               = outbound fresh_state @ ''http://mcp-hr-service.local:8080'' # more)"
proof -
  have t: "validate_service_token sample_settings (Some ''s3cret'')
     = Inr \<lparr>service_name = ''application'', service_department = None\<rparr>"
    by (simp add: validate_service_token_def sample_settings_def)
  have d: "extract_department_from_request (sample_call ''hr'') = Some (JStr ''hr'')"
    by (simp add: extract_department_from_request_def sample_call_def)
  have u: "get_mcp_server_url sample_settings ''hr'' = Some ''http://mcp-hr-service.local:8080''"
    by (simp add: get_mcp_server_url_def sample_settings_def lower_def lower_char_def)
  have n: "''http://mcp-hr-service.local:8080'' \<noteq> []" by simp
  have b: "\<not> breaker_opened 60 (mcp_breaker fresh_state) (now env_up)"
    by (simp add: breaker_opened_def fresh_state_def closed_breaker_def)
  have h: "(None :: string option) = None \<or> (None :: string option) = Some []" by simp
  from missing_roles_header_is_forwarded [OF t d u n h b, of sample_engine sample_request] t d u b
  show ?thesis by blast
qed

text \<open>
  A role written after a no-break space is stripped like any other: the header
  \<^verbatim>\<open>admin,\<close> 0xA0 \<^verbatim>\<open>hr\<close> declares the roles \<^verbatim>\<open>admin\<close> and \<^verbatim>\<open>hr\<close>, and a request for the
  hr department under it passes both checks.
\<close>

lemma no_break_space_is_stripped:
  "header_roles (''admin,'' @ [CHR 0xA0] @ ''hr'') = [''admin'', ''hr'']"
  by (simp add: header_roles_def strip_def isspace_def)

lemma no_break_space_role_is_forwarded:
  "fst (route_mcp_request sample_settings sample_engine fresh_state env_up sample_request
          (sample_call ''hr'') (Some ''s3cret'') (Some (''admin,'' @ [CHR 0xA0] @ ''hr'')))
     = JSONResponse (JObj [(''result'', JStr ''ok'')]) 200"
  by (simp add: route_defs sample_defs)

text \<open>
  Claim C3. With RBAC and department isolation enabled, a valid service token and a
  non-empty \<^verbatim>\<open>X-User-Roles\<close> header, a request whose declared roles hold \<^verbatim>\<open>read\<close> on
  the resource the department resolves to, but whose department is not among the
  declared roles (compared in lower case), is answered 403 with exactly one audit entry
  added, of status 403 and reason \<^verbatim>\<open>Department isolation violation\<close>, and nothing is
  forwarded.
\<close>

theorem department_isolation_independent_of_rbac:
  assumes "rbac_enabled cfg" and "department_isolation cfg"
    and "validate_service_token cfg x_service_token = Inr si"
    and "x_user_roles = Some h" and "h \<noteq> []"
    and "extract_department_from_request mr = Some (JStr department)"
    and "map_department_to_server department = Some res"
    and "check_permission eng (header_roles h) res ''read''"
    and "lower department \<notin> set (map lower (header_roles h))"
  shows "route_mcp_request cfg eng s ev rq mr x_service_token x_user_roles =
           (HTTPException 403 ''Access denied: department isolation'',
            s\<lparr>audit_trail := audit_trail s @
                 [create_mcp_audit_log si rq mr 403 (Some department)
                    (Some ''Department isolation violation'')]\<rparr>)"
  using assms
  by (simp add: route_mcp_request_def route_checked_def isolate_and_forward_def
        declared_roles_def emit_def)

theorem department_isolation_independent_of_rbac_witness:
  "rbac_enabled sample_settings \<and> department_isolation sample_settings
   \<and> map_department_to_server ''hr'' = Some ''mcp-hr-server''
   \<and> header_roles spaced_roles_header = [''admin'', ''Finance'']
   \<and> check_permission sample_engine (header_roles spaced_roles_header) ''mcp-hr-server'' ''read''
   \<and> lower ''hr'' \<notin> set (map lower (header_roles spaced_roles_header))
   \<and> fst (route_mcp_request sample_settings sample_engine fresh_state env_up sample_request
            (sample_call ''hr'') (Some ''s3cret'') (Some spaced_roles_header))
      = HTTPException 403 ''Access denied: department isolation''
   \<and> map audit_error (audit_trail (snd (route_mcp_request sample_settings sample_engine
            fresh_state env_up sample_request (sample_call ''hr'') (Some ''s3cret'')
            (Some spaced_roles_header))))
      = [Some ''Department isolation violation'']"
proof -
  have f: "rbac_enabled sample_settings" "department_isolation sample_settings"
    by (simp_all add: sample_settings_def)
  have t: "validate_service_token sample_settings (Some ''s3cret'')
     = Inr \<lparr>service_name = ''application'', service_department = None\<rparr>"
    by (simp add: validate_service_token_def sample_settings_def)
  have d: "extract_department_from_request (sample_call ''hr'') = Some (JStr ''hr'')"
    by (simp add: extract_department_from_request_def sample_call_def)
  have m: "map_department_to_server ''hr'' = Some ''mcp-hr-server''"
    by (simp add: map_department_to_server_def lower_def lower_char_def)
  have r: "header_roles spaced_roles_header = [''admin'', ''Finance'']"
    by (simp add: spaced_roles_header_def header_roles_def strip_def isspace_def)
  have p: "check_permission sample_engine (header_roles spaced_roles_header) ''mcp-hr-server'' ''read''"
    by (simp add: r sample_engine_def mk_rbac_engine_def sample_policy_def)
  have i: "lower ''hr'' \<notin> set (map lower (header_roles spaced_roles_header))"
    by (simp add: r lower_def lower_char_def)
  have n: "spaced_roles_header \<noteq> []"
    by (simp add: spaced_roles_header_def)
  from department_isolation_independent_of_rbac
         [OF f t refl n d m p i, of fresh_state env_up sample_request]
       f m r p i
  show ?thesis by (simp add: fresh_state_def create_mcp_audit_log_def)
qed

section \<open>Retries exhausted and open circuit\<close>

lemma legal_call_down_step:
  "legal_call env_down
     \<lparr>jwks_cache = None, jwks_fetches = 0,
      mcp_breaker = \<lparr>is_open_state = False, failure_count = k, opened_at = 0\<rparr>,
      app_breaker = ab, outbound = sent, audit_trail = tr\<rparr>
   = (HTTPException 500 ''Internal server error'',
      \<lparr>jwks_cache = None, jwks_fetches = 0,
       mcp_breaker = (if 5 \<le> k + 1
                      then \<lparr>is_open_state = True, failure_count = k + 1, opened_at = 11\<rparr>
                      else \<lparr>is_open_state = False, failure_count = k + 1, opened_at = 0\<rparr>),
       app_breaker = ab,
       outbound = sent @ replicate 3 ''http://mcp-legal-service.local:8080'',
       audit_trail = tr @
         [\<lparr>audit_user_id = Some ''application'', audit_username = Some ''application'',
           audit_department = Some ''legal'', audit_method = ''MCP:tools/list'',
           audit_path = ''/mcp'', audit_status_code = 500, audit_error = Some ''RetryError'',
           audit_client_ip = Some ''10.0.0.7''\<rparr>]\<rparr>)"
  by (simp add: legal_call_def route_defs sample_settings_def sample_engine_def
        sample_policy_def mk_rbac_engine_def env_down_def sample_request_def sample_call_def
        numeral_3_eq_3)

lemma tripped: "mcp_breaker tripped_state = \<lparr>is_open_state = True, failure_count = 5, opened_at = 11\<rparr>
  \<and> length (outbound tripped_state) = 15 \<and> length (audit_trail tripped_state) = 5"
  by (simp add: tripped_state_def eval_nat_numeral fresh_state_def closed_breaker_def
        legal_call_down_step)

text \<open>
  Whatever the upstream does, the control-plane handler never raises 502 itself: the
  forwarding call raises only \<^verbatim>\<open>RetryError\<close> or \<^verbatim>\<open>CircuitBreakerError\<close>.
\<close>

lemma forward_and_respond_never_502:
  "fst (forward_and_respond s ev si rq mr d url) \<noteq> HTTPException 502 detail"
proof -
  obtain res s1 where f: "forward_to_mcp_server s ev url mr = (res, s1)"
    by (cases "forward_to_mcp_server s ev url mr")
  show ?thesis
  proof (cases res)
    case (Inl e)
    with f forward_to_mcp_server_not_httpx [of s ev url mr e] have "\<not> is_httpx_error e"
      by simp
    with f Inl show ?thesis by (simp add: forward_and_respond_def)
  next
    case (Inr response)
    with f show ?thesis
      by (simp add: forward_and_respond_def Let_def split: option.splits)
  qed
qed

lemma route_mcp_request_never_502:
  "fst (route_mcp_request cfg eng s ev rq mr x_service_token x_user_roles)
     \<noteq> HTTPException 502 detail"
proof -
  have i: "fst (isolate_and_forward cfg s ev si rq mr x_user_roles d) \<noteq> HTTPException 502 detail"
    for si d
    by (simp add: isolate_and_forward_def forward_and_respond_never_502 split: option.splits)
  have c: "fst (route_checked cfg eng s ev si rq mr x_user_roles d) \<noteq> HTTPException 502 detail"
    for si d
    by (simp add: route_checked_def i split: option.splits)
  have v: "validate_service_token cfg x_service_token \<noteq> Inl (HTTPException 502 detail)"
    by (simp add: validate_service_token_def split: option.splits)
  show ?thesis
    using v by (auto simp: route_mcp_request_def c split: sum.splits option.splits json.splits)
qed

text \<open>
  Claim C4 at a failing input. The legal upstream times out on every attempt. The first
  call makes three attempts and is answered 500, not 502: what reaches the handler is
  the \<^verbatim>\<open>RetryError\<close> of the retry decorator, which is not an \<^verbatim>\<open>httpx.HTTPError\<close>.
  After five such calls the breaker is open; a sixth call inside the recovery window
  makes no outbound attempt and is answered 500 as well, the handler having caught a
  \<^verbatim>\<open>CircuitBreakerError\<close>.
\<close>

theorem exhausted_retries_and_open_circuit_give_500:
  "fst (legal_call env_down fresh_state) = HTTPException 500 ''Internal server error''
   \<and> outbound (snd (legal_call env_down fresh_state))
       = replicate 3 ''http://mcp-legal-service.local:8080''
   \<and> mcp_breaker tripped_state = \<lparr>is_open_state = True, failure_count = 5, opened_at = 11\<rparr>
   \<and> breaker_opened 60 (mcp_breaker tripped_state) (now env_in_window)
   \<and> fst (legal_call env_in_window tripped_state) = HTTPException 500 ''Internal server error''
   \<and> result_status (fst (legal_call env_in_window tripped_state)) \<noteq> 502
   \<and> outbound (snd (legal_call env_in_window tripped_state)) = outbound tripped_state
   \<and> map audit_error (drop 5 (audit_trail (snd (legal_call env_in_window tripped_state))))
       = [Some ''CircuitBreakerError'']"
proof -
  have one: "fst (legal_call env_down fresh_state) = HTTPException 500 ''Internal server error''"
    "outbound (snd (legal_call env_down fresh_state))
       = replicate 3 ''http://mcp-legal-service.local:8080''"
    by (simp_all add: fresh_state_def closed_breaker_def legal_call_down_step)
  have b: "mcp_breaker tripped_state = \<lparr>is_open_state = True, failure_count = 5, opened_at = 11\<rparr>"
    using tripped by simp
  have o: "breaker_opened 60 (mcp_breaker tripped_state) (now env_in_window)"
    by (simp add: b breaker_opened_def env_in_window_def env_down_def)
  have six: "legal_call env_in_window tripped_state =
     (HTTPException 500 ''Internal server error'',
      tripped_state\<lparr>audit_trail := audit_trail tripped_state @
        [create_mcp_audit_log \<lparr>service_name = ''application'', service_department = None\<rparr>
           sample_request (sample_call ''legal'') 500 (Some ''legal'')
           (Some ''CircuitBreakerError'')]\<rparr>)"
    using o
    by (simp add: legal_call_def route_mcp_request_def route_checked_def
          isolate_and_forward_def forward_and_respond_def forward_to_mcp_server_open
          validate_service_token_def extract_department_from_request_def declared_roles_def
          header_roles_def get_mcp_server_url_def map_department_to_server_def emit_def
          exn_text_def strip_def isspace_def lower_def lower_char_def
          sample_settings_def sample_engine_def sample_policy_def mk_rbac_engine_def
          sample_call_def)
  show ?thesis
    using one b o tripped by (simp add: six create_mcp_audit_log_def)
qed

section \<open>Audit entries per exit\<close>

lemma forward_to_mcp_server_isl_url:
  "isl (fst (forward_to_mcp_server s ev url mr)) = isl (fst (forward_to_mcp_server s ev url' mr))"
proof -
  have "fst (retrying 2 (net ev) url (outbound s)) = fst (retrying 2 (net ev) url' (outbound s))"
    by (rule retrying_result_url) simp
  then show ?thesis
    by (auto simp: forward_to_mcp_server_def circuit_def stop_after_attempt_def
          split: prod.splits sum.splits)
qed

lemma forward_and_respond_audit:
  assumes "forward_and_respond s ev si rq mr d url = (r, s')"
  shows "\<exists>new. audit_trail s' = audit_trail s @ new
     \<and> audit_per_exit r new (isl (fst (forward_to_mcp_server s ev url' mr)))"
proof -
  obtain res s1 where f: "forward_to_mcp_server s ev url mr = (res, s1)"
    by (cases "forward_to_mcp_server s ev url mr")
  then have a1: "audit_trail s1 = audit_trail s"
    using forward_to_mcp_server_frame(1) [of s ev url mr] by simp
  have u: "isl (fst (forward_to_mcp_server s ev url' mr)) = isl res"
    using forward_to_mcp_server_isl_url [of s ev url' mr url] f by simp
  show ?thesis
  proof (cases res)
    case (Inl ex)
    with assms f a1 show ?thesis
      by (auto simp: forward_and_respond_def emit_def create_mcp_audit_log_def split: if_splits)
  next
    case (Inr response)
    with assms f a1 u show ?thesis
      by (auto simp: forward_and_respond_def emit_def create_mcp_audit_log_def Let_def
            split: option.splits)
  qed
qed

lemma isolate_and_forward_audit:
  assumes "isolate_and_forward cfg s ev si rq mr xr d = (r, s')"
  shows "\<exists>new. audit_trail s' = audit_trail s @ new
     \<and> audit_per_exit r new (isl (fst (forward_to_mcp_server s ev url' mr)))"
proof (cases "department_isolation cfg
         \<and> (case declared_roles xr of None \<Rightarrow> False
             | Some rs \<Rightarrow> lower d \<notin> set (map lower rs))")
  case True
  with assms show ?thesis
    by (auto simp: isolate_and_forward_def emit_def create_mcp_audit_log_def)
next
  case False
  show ?thesis
  proof (cases "get_mcp_server_url cfg d")
    case None
    with assms False show ?thesis
      by (auto simp: isolate_and_forward_def)
  next
    case (Some url)
    show ?thesis
    proof (cases "url = []")
      case True
      with assms False Some show ?thesis
        by (auto simp: isolate_and_forward_def)
    next
      case nonempty: False
      with assms False Some have "forward_and_respond s ev si rq mr d url = (r, s')"
        by (auto simp: isolate_and_forward_def)
      then show ?thesis by (rule forward_and_respond_audit)
    qed
  qed
qed

lemma route_checked_audit:
  assumes "route_checked cfg eng s ev si rq mr xr d = (r, s')"
  shows "\<exists>new. audit_trail s' = audit_trail s @ new
     \<and> audit_per_exit r new (isl (fst (forward_to_mcp_server s ev url' mr)))"
proof (cases "if rbac_enabled cfg then declared_roles xr else None")
  case None
  with assms have "isolate_and_forward cfg s ev si rq mr xr d = (r, s')"
    by (simp add: route_checked_def)
  then show ?thesis by (rule isolate_and_forward_audit)
next
  case (Some rs)
  show ?thesis
  proof (cases "map_department_to_server d")
    case None
    with assms Some show ?thesis by (auto simp: route_checked_def)
  next
    case res: (Some res)
    show ?thesis
    proof (cases "check_permission eng rs res ''read''")
      case False
      with assms Some res show ?thesis
        by (auto simp: route_checked_def emit_def create_mcp_audit_log_def)
    next
      case True
      with assms Some res have "isolate_and_forward cfg s ev si rq mr xr d = (r, s')"
        by (simp add: route_checked_def)
      then show ?thesis by (rule isolate_and_forward_audit)
    qed
  qed
qed

lemma route_mcp_request_audit:
  assumes "route_mcp_request cfg eng s ev rq mr tok xr = (r, s')"
  shows "\<exists>new. audit_trail s' = audit_trail s @ new
     \<and> audit_per_exit r new (isl (fst (forward_to_mcp_server s ev url' mr)))"
proof (cases "validate_service_token cfg tok")
  case (Inl exc)
  then have "\<exists>d. exc = HTTPException 401 d"
    by (auto simp: validate_service_token_def split: option.splits if_splits)
  with assms Inl show ?thesis by (auto simp: route_mcp_request_def)
next
  case (Inr si)
  show ?thesis
  proof (cases "extract_department_from_request mr")
    case None
    with assms Inr show ?thesis by (auto simp: route_mcp_request_def)
  next
    case (Some dv)
    show ?thesis
    proof (cases dv)
      case (JStr d)
      with assms Inr Some have "route_checked cfg eng s ev si rq mr xr d = (r, s')"
        by (simp add: route_mcp_request_def)
      then show ?thesis by (rule route_checked_audit)
    qed (use assms Inr Some in \<open>auto simp: route_mcp_request_def\<close>)
  qed
qed

lemma get_jwks_frame:
  "audit_trail (snd (get_jwks s ev)) = audit_trail s
     \<and> app_breaker (snd (get_jwks s ev)) = app_breaker s
     \<and> outbound (snd (get_jwks s ev)) = outbound s"
  by (simp add: get_jwks_def split: option.splits)

lemma validate_jwt_token_frame:
  assumes "validate_jwt_token lib s ev authorization = (res, s1)"
  shows "audit_trail s1 = audit_trail s \<and> app_breaker s1 = app_breaker s
       \<and> outbound s1 = outbound s"
proof (cases "authorization = None \<or> authorization = Some []")
  case True
  with assms show ?thesis by (simp add: validate_jwt_token_def)
next
  case False
  show ?thesis
  proof (cases "extract_token authorization")
    case None
    with assms False show ?thesis by (simp add: validate_jwt_token_def)
  next
    case (Some token)
    with assms False have "s1 = snd (validate_token lib s ev token)"
      by (auto simp: validate_jwt_token_def split: prod.splits option.splits)
    then show ?thesis by (simp add: validate_token_state get_jwks_frame)
  qed
qed

lemma validate_jwt_token_raises:
  "validate_jwt_token lib s ev authorization = (Inl exc, s1) \<Longrightarrow> \<exists>d. exc = HTTPException 401 d"
  by (auto simp: validate_jwt_token_def split: if_splits option.splits prod.splits)

lemma forward_to_application_frame:
  "audit_trail (snd (forward_to_application cfg s ev meth path)) = audit_trail s"
  by (simp add: forward_to_application_def split: prod.splits)

lemma forward_to_application_result:
  "app_breaker s1 = app_breaker s \<Longrightarrow> outbound s1 = outbound s \<Longrightarrow>
     fst (forward_to_application cfg s1 ev meth path) = fst (forward_to_application cfg s ev meth path)"
  by (simp add: forward_to_application_def split: prod.splits)

lemma api_handler_audit:
  assumes "api_handler cfg s ev ui rq meth path = (r, s')"
  shows "\<exists>new. audit_trail s' = audit_trail s @ new
     \<and> audit_per_exit r new (isl (fst (forward_to_application cfg s ev meth path)))"
proof -
  obtain res s1 where f: "forward_to_application cfg s ev meth path = (res, s1)"
    by (cases "forward_to_application cfg s ev meth path")
  then have a1: "audit_trail s1 = audit_trail s"
    using forward_to_application_frame [of cfg s ev meth path] by simp
  show ?thesis
  proof (cases res)
    case (Inl ex)
    with assms f a1 show ?thesis
      by (auto simp: api_handler_def emit_def create_audit_log_def split: if_splits)
  next
    case (Inr response)
    with assms f a1 show ?thesis
      by (auto simp: api_handler_def emit_def create_audit_log_def Let_def
            split: option.splits)
  qed
qed

lemma api_endpoint_audit:
  assumes "api_endpoint cfg lib s ev rq authorization meth path = (r, s')"
  shows "\<exists>new. audit_trail s' = audit_trail s @ new
     \<and> audit_per_exit r new (isl (fst (forward_to_application cfg s ev meth path)))"
proof -
  obtain res s1 where v: "validate_jwt_token lib s ev authorization = (res, s1)"
    by (cases "validate_jwt_token lib s ev authorization")
  note fr = validate_jwt_token_frame [OF v]
  have a: "audit_trail s1 = audit_trail s"
    using fr by simp
  show ?thesis
  proof (cases res)
    case (Inl exc)
    with v validate_jwt_token_raises [of lib s ev authorization exc s1]
    obtain d where "exc = HTTPException 401 d" by auto
    with assms v Inl have "r = HTTPException 401 d" and "s' = s1"
      by (simp_all add: api_endpoint_def)
    with a show ?thesis by simp
  next
    case (Inr ui)
    with assms v have h: "api_handler cfg s1 ev ui rq meth path = (r, s')"
      by (simp add: api_endpoint_def)
    have e: "fst (forward_to_application cfg s1 ev meth path)
            = fst (forward_to_application cfg s ev meth path)"
      by (rule forward_to_application_result) (simp_all add: fr)
    show ?thesis
      using api_handler_audit [OF h] unfolding e a .
  qed
qed

lemma sample_api_call:
  "api_endpoint sample_settings sample_jose fresh_state env_up sample_request
       (Some ''Bearer tok-access'') ''POST'' ''/process''
     = (JSONResponse (JObj [(''result'', JStr ''ok'')]) 200,
        snd (api_endpoint sample_settings sample_jose fresh_state env_up sample_request
               (Some ''Bearer tok-access'') ''POST'' ''/process''))"
proof -
  have v: "validate_jwt_token sample_jose fresh_state env_up (Some ''Bearer tok-access'')
     = (Inr (extract_user_info sample_claims),
        fresh_state\<lparr>jwks_cache := Some sample_keys, jwks_fetches := 1\<rparr>)"
    by (simp add: validate_jwt_token_def sample_bearer validate_token_def get_jwks_def
          fresh_state_def env_up_def sample_jose_def sample_keys_def sample_claims_def)
  have "fst (api_endpoint sample_settings sample_jose fresh_state env_up sample_request
       (Some ''Bearer tok-access'') ''POST'' ''/process'')
     = fst (api_handler sample_settings
              (fresh_state\<lparr>jwks_cache := Some sample_keys, jwks_fetches := 1\<rparr>) env_up
              (extract_user_info sample_claims) sample_request ''POST'' ''/process'')"
    by (simp add: api_endpoint_def v)
  also have "\<dots> = JSONResponse (JObj [(''result'', JStr ''ok'')]) 200"
    by (simp add: api_handler_def forward_to_application_def circuit_def
          stop_after_attempt_def breaker_opened_def fresh_state_def closed_breaker_def
          env_up_def ok_response_def numeral_2_eq_2 Let_def)
  finally have "fst (api_endpoint sample_settings sample_jose fresh_state env_up sample_request
       (Some ''Bearer tok-access'') ''POST'' ''/process'')
     = JSONResponse (JObj [(''result'', JStr ''ok'')]) 200" .
  then show ?thesis by (simp add: prod_eq_iff)
qed

lemma sample_legal_call:
  "route_mcp_request sample_settings sample_engine fresh_state env_down sample_request
       (sample_call ''legal'') (Some ''s3cret'') (Some ''legal'')
     = (HTTPException 500 ''Internal server error'',
        snd (route_mcp_request sample_settings sample_engine fresh_state env_down sample_request
               (sample_call ''legal'') (Some ''s3cret'') (Some ''legal'')))"
proof -
  have "fst (legal_call env_down fresh_state) = HTTPException 500 ''Internal server error''"
    by (simp add: fresh_state_def closed_breaker_def legal_call_down_step)
  then show ?thesis by (simp add: prod_eq_iff legal_call_def)
qed

lemma sample_legal_raises:
  "isl (fst (forward_to_mcp_server fresh_state env_down ''http://mcp-legal-service.local:8080''
               (sample_call ''legal'')))"
  by (simp add: forward_to_mcp_server_def circuit_def stop_after_attempt_def breaker_opened_def
        fresh_state_def closed_breaker_def env_down_def numeral_2_eq_2)

text \<open>
  Claim C1, as stated, fails: the 401, 400 and 404 exits of the control-plane surface
  and the 401 exit of the data-plane surface log no audit entry and leave the state
  as it was.
\<close>

theorem unaudited_exits:
  "route_mcp_request sample_settings sample_engine fresh_state env_up sample_request
      (sample_call ''hr'') None (Some ''hr'')
     = (HTTPException 401 ''Missing service token'', fresh_state)
   \<and> route_mcp_request sample_settings sample_engine fresh_state env_up sample_request
      ((sample_call ''hr'')\<lparr>params := None\<rparr>) (Some ''s3cret'') (Some ''hr'')
     = (HTTPException 400 ''Missing department in request'', fresh_state)
   \<and> route_mcp_request sample_settings sample_engine fresh_state env_up sample_request
      (sample_call ''sales'') (Some ''s3cret'') None
     = (HTTPException 404 ''MCP server not found'', fresh_state)
   \<and> api_endpoint sample_settings sample_jose fresh_state env_up sample_request None
        ''POST'' ''/process''
     = (HTTPException 401 ''Missing Authorization header'', fresh_state)
   \<and> audit_trail fresh_state = []"
proof -
  have a: "route_mcp_request sample_settings sample_engine fresh_state env_up sample_request
      (sample_call ''hr'') None (Some ''hr'')
     = (HTTPException 401 ''Missing service token'', fresh_state)"
    by (simp add: route_mcp_request_def validate_service_token_def)
  have b: "route_mcp_request sample_settings sample_engine fresh_state env_up sample_request
      ((sample_call ''hr'')\<lparr>params := None\<rparr>) (Some ''s3cret'') (Some ''hr'')
     = (HTTPException 400 ''Missing department in request'', fresh_state)"
    by (simp add: route_mcp_request_def validate_service_token_def sample_settings_def
          extract_department_from_request_def)
  have c: "route_mcp_request sample_settings sample_engine fresh_state env_up sample_request
      (sample_call ''sales'') (Some ''s3cret'') None
     = (HTTPException 404 ''MCP server not found'', fresh_state)"
    by (simp add: route_mcp_request_def validate_service_token_def sample_settings_def
          extract_department_from_request_def sample_call_def route_checked_def
          isolate_and_forward_def declared_roles_def get_mcp_server_url_def
          lower_def lower_char_def)
  have d: "api_endpoint sample_settings sample_jose fresh_state env_up sample_request None
        ''POST'' ''/process''
     = (HTTPException 401 ''Missing Authorization header'', fresh_state)"
    by (simp add: api_endpoint_def validate_jwt_token_def)
  have e: "audit_trail fresh_state = []"
    by (simp add: fresh_state_def)
  from a b c d e show ?thesis by blast
qed

text \<open>
  Claim C1, amended. On either surface the audit entries of a handled request extend
  the trail, and: a request answered by a raised 401, 400 or 404 logs none; a request
  denied with 403 logs exactly one, of status 403; a request whose upstream response is
  relayed logs exactly one, of the relayed status; a request whose forwarding call
  raises (retries exhausted or circuit open) logs exactly one, of the status the caller
  receives.
\<close>

theorem audit_entries_per_exit:
  assumes "route_mcp_request cfg eng s ev rq mr x_service_token x_user_roles = (r, s')"
    and "api_endpoint cfg lib t ev' rq' authorization meth path = (r', t')"
  shows "(\<exists>new. audit_trail s' = audit_trail s @ new
            \<and> audit_per_exit r new (isl (fst (forward_to_mcp_server s ev url mr))))
       \<and> (\<exists>new. audit_trail t' = audit_trail t @ new
            \<and> audit_per_exit r' new (isl (fst (forward_to_application cfg t ev' meth path))))"
proof
  show "\<exists>new. audit_trail s' = audit_trail s @ new
            \<and> audit_per_exit r new (isl (fst (forward_to_mcp_server s ev url mr)))"
    using assms(1) by (rule route_mcp_request_audit)
  show "\<exists>new. audit_trail t' = audit_trail t @ new
            \<and> audit_per_exit r' new (isl (fst (forward_to_application cfg t ev' meth path)))"
    using assms(2) by (rule api_endpoint_audit)
qed

theorem audit_entries_per_exit_witness:
  "fst (route_mcp_request sample_settings sample_engine fresh_state env_down sample_request
          (sample_call ''legal'') (Some ''s3cret'') (Some ''legal''))
     = HTTPException 500 ''Internal server error''
   \<and> isl (fst (forward_to_mcp_server fresh_state env_down
                 ''http://mcp-legal-service.local:8080'' (sample_call ''legal'')))
   \<and> (\<exists>a. audit_trail (snd (route_mcp_request sample_settings sample_engine fresh_state
                 env_down sample_request (sample_call ''legal'') (Some ''s3cret'')
                 (Some ''legal''))) = [a]
          \<and> audit_status_code a = 500)
   \<and> fst (api_endpoint sample_settings sample_jose fresh_state env_up sample_request
            (Some ''Bearer tok-access'') ''POST'' ''/process'')
     = JSONResponse (JObj [(''result'', JStr ''ok'')]) 200
   \<and> (\<exists>a. audit_trail (snd (api_endpoint sample_settings sample_jose fresh_state env_up
                 sample_request (Some ''Bearer tok-access'') ''POST'' ''/process'')) = [a]
          \<and> audit_status_code a = 200)"
proof -
  have e: "audit_trail fresh_state = []"
    by (simp add: fresh_state_def)
  from audit_entries_per_exit [OF sample_legal_call sample_api_call,
         of "''http://mcp-legal-service.local:8080''"]
       sample_legal_raises sample_legal_call sample_api_call e
  show ?thesis by (auto simp: prod_eq_iff)
qed

end
